theory Spec2Isabelle
  imports Complex_Main "HOL-Library.Word"
begin

section \<open>Common notions\<close>

text \<open>
  The Python exceptions that the modelled functions can raise. A function that can raise
  returns a value of type \<open>exn + 'a\<close>, with \<open>Inl\<close> for the exception.
  \<open>FetchError\<close> stands for whatever the network layer raises.

  A Python float is given by the rational number it denotes. The subtraction of times
  in the parsers is exact in the model; the conversions from seconds to samples and the
  scaling of samples round as binary64 arithmetic does (section on Python numbers).
\<close>

datatype exn =
  TypeError | ValueError | IndexError | AttributeError | KeyError | FetchError | OverflowError

type_synonym addr = nat

section \<open>Quanta and their parsers\<close>

text \<open>
  \<open>AudioQuantum.__init__\<close> sets \<open>start\<close>, \<open>duration\<close>, \<open>kind\<close> and
  \<open>confidence\<close>. It does not set \<open>container\<close>: that attribute exists only once
  \<open>AudioQuantumList.attach\<close> has assigned it, so \<open>container = None\<close> here means that the
  attribute is absent and that reading it raises \<open>AttributeError\<close>.
\<close>

record AudioQuantum =
  start :: rat
  duration :: rat
  kind :: "string option"
  confidence :: "rat option"
  container :: "addr option"

definition AudioQuantum_init :: "rat \<Rightarrow> rat \<Rightarrow> string option \<Rightarrow> rat option \<Rightarrow> AudioQuantum" where
  "AudioQuantum_init s d k c =
     \<lparr>start = s, duration = d, kind = k, confidence = c, container = None\<rparr>"

text \<open>
  \<open>AudioQuantumList\<close> is a Python list with two more attributes. The element type is a
  parameter: the parsers build lists of fresh objects, given here by their field values;
  in the object store further down, the elements are references.
  \<open>list_container = None\<close> is Python's \<open>None\<close>, the constructor's default.
\<close>

record 'a AudioQuantumList =
  list_kind :: "string option"
  list_container :: "addr option"
  items :: "'a list"

definition AudioQuantumList_init :: "string option \<Rightarrow> addr option \<Rightarrow> 'a AudioQuantumList" where
  "AudioQuantumList_init k c = \<lparr>list_kind = k, list_container = c, items = []\<rparr>"

text \<open>
  The XML document is an external object. A node of it is represented by the outcomes of
  the two conversions that \<open>dataParser\<close> applies to it:
  \<open>float(n.firstChild.data)\<close> and \<open>float(n.getAttributeNode('confidence').value)\<close>,
  each of which either raises or yields a number.
\<close>

record node =
  data_float :: "exn + rat"
  confidence_float :: "exn + rat"

text \<open>The first loop of \<open>dataParser\<close>: one quantum per node, duration left at its default 0.\<close>

fun parse_nodes :: "string \<Rightarrow> node list \<Rightarrow> exn + AudioQuantum list" where
  "parse_nodes tag [] = Inr []"
| "parse_nodes tag (n # ns) =
     (case data_float n of
        Inl e \<Rightarrow> Inl e
      | Inr s \<Rightarrow>
          (case confidence_float n of
             Inl e \<Rightarrow> Inl e
           | Inr c \<Rightarrow>
               (case parse_nodes tag ns of
                  Inl e \<Rightarrow> Inl e
                | Inr qs \<Rightarrow> Inr (AudioQuantum_init s 0 (Some tag) (Some c) # qs))))"





section \<open>The object store of quanta, lists and analyses\<close>

text \<open>
  \<open>AudioQuantum\<close> defines no \<open>__eq__\<close>, so \<open>list.index\<close> compares quanta by identity,
  and \<open>attach\<close> mutates objects that several references share. Objects therefore live in a
  store and are referred to by address.

  A value of a cached variable is \<open>None\<close>, the raw document that the network returned, or
  what a parser made of it. The second type parameter is how a list of quanta is given:
  by its contents in the result of a parser, by its address once it is an object.
\<close>

datatype ('d, 'l) pyval =
    PyNone
  | Doc 'd
  | Str string
  | Num rat
  | NumConf rat rat
  | Meta "(string \<times> string) list"
  | QList 'l

type_synonym 'd parser = "'d \<Rightarrow> exn + ('d, AudioQuantum AudioQuantumList) pyval"

record 'd AudioAnalysis =
  track_id :: string
  parsers :: "string \<Rightarrow> 'd parser option"
  cached :: "string \<Rightarrow> ('d, addr) pyval"

text \<open>
  The network is the external collaborator \<open>echonest.web.analyze\<close>. Its answer to the
  \<open>k\<close>-th request may depend on \<open>k\<close>, on the variable asked for and on the track
  identifier; \<open>requests\<close> counts the requests made so far.
\<close>

record 'd store =
  quanta :: "addr \<Rightarrow> AudioQuantum"
  qlists :: "addr \<Rightarrow> addr AudioQuantumList"
  analyses :: "addr \<Rightarrow> 'd AudioAnalysis"
  free_quantum :: addr
  free_qlist :: addr
  net :: "nat \<Rightarrow> string \<Rightarrow> string \<Rightarrow> exn + 'd"
  requests :: nat

definition CACHED_VARIABLES :: "string list" where
  "CACHED_VARIABLES =
     [''bars'', ''beats'', ''duration'', ''end_of_fade_in'', ''key'', ''loudness'', ''metadata'',
      ''mode'', ''sections'', ''segments'', ''start_of_fade_out'', ''tatums'', ''tempo'',
      ''time_signature'']"

text \<open>\<open>getter(id)\<close> with \<open>getter = analyze.__dict__['get_' + name]\<close>.\<close>

definition fetch :: "'d store \<Rightarrow> string \<Rightarrow> string \<Rightarrow> (exn + 'd) \<times> 'd store" where
  "fetch st name tid = (net st (requests st) name tid, st\<lparr>requests := Suc (requests st)\<rparr>)"

text \<open>
  A parser returns new objects. In the model it returns their contents, and
  \<open>store_value\<close> places them at unused addresses.
\<close>

definition alloc_quanta :: "'d store \<Rightarrow> AudioQuantum list \<Rightarrow> addr list \<times> 'd store" where
  "alloc_quanta st qs =
     (let base = free_quantum st in
      ([base ..< base + length qs],
       st\<lparr>quanta := (\<lambda>a. if base \<le> a \<and> a < base + length qs then qs ! (a - base) else quanta st a),
          free_quantum := base + length qs\<rparr>))"

definition alloc_qlist :: "'d store \<Rightarrow> addr AudioQuantumList \<Rightarrow> addr \<times> 'd store" where
  "alloc_qlist st l =
     (free_qlist st, st\<lparr>qlists := (qlists st)(free_qlist st := l), free_qlist := Suc (free_qlist st)\<rparr>)"

fun store_value ::
  "'d store \<Rightarrow> ('d, AudioQuantum AudioQuantumList) pyval \<Rightarrow> ('d, addr) pyval \<times> 'd store" where
  "store_value st (QList l) =
     (let (as, st1) = alloc_quanta st (items l);
          (a, st2) = alloc_qlist st1
                       \<lparr>list_kind = list_kind l, list_container = list_container l, items = as\<rparr>
      in (QList a, st2))"
| "store_value st PyNone = (PyNone, st)"
| "store_value st (Doc d) = (Doc d, st)"
| "store_value st (Str s) = (Str s, st)"
| "store_value st (Num x) = (Num x, st)"
| "store_value st (NumConf x c) = (NumConf x c, st)"
| "store_value st (Meta m) = (Meta m, st)"

text \<open>\<open>AudioQuantumList.attach\<close>.\<close>

definition attach :: "'d store \<Rightarrow> addr \<Rightarrow> addr \<Rightarrow> 'd store" where
  "attach st l c =
     (let st1 = st\<lparr>qlists := (qlists st)(l := (qlists st l)\<lparr>list_container := Some c\<rparr>)\<rparr>
      in st1\<lparr>quanta := fold (\<lambda>i q. q(i := (q i)\<lparr>container := Some l\<rparr>))
                              (items (qlists st1 l)) (quanta st1)\<rparr>)"

definition setattr :: "'d store \<Rightarrow> addr \<Rightarrow> string \<Rightarrow> ('d, addr) pyval \<Rightarrow> 'd store" where
  "setattr st a name v =
     st\<lparr>analyses := (analyses st)(a := (analyses st a)\<lparr>cached := (cached (analyses st a))(name := v)\<rparr>)\<rparr>"

text \<open>
  \<open>AudioAnalysis.__getattribute__\<close>. For a name outside \<open>CACHED_VARIABLES\<close> the
  ordinary attribute lookup applies; of the ordinary attributes only \<open>id\<close> is represented.
\<close>

definition getattribute ::
  "'d store \<Rightarrow> addr \<Rightarrow> string \<Rightarrow> (exn + ('d, addr) pyval) \<times> 'd store" where
  "getattribute st a name =
     (if name \<in> set CACHED_VARIABLES then
        (if cached (analyses st a) name = PyNone then
           (case fetch st name (track_id (analyses st a)) of
              (Inl e, st1) \<Rightarrow> (Inl e, st1)
            | (Inr d, st1) \<Rightarrow>
                (case (case parsers (analyses st1 a) name of
                         None \<Rightarrow> Inr (Doc d)
                       | Some parseFunction \<Rightarrow> parseFunction d) of
                   Inl e \<Rightarrow> (Inl e, st1)
                 | Inr pv \<Rightarrow>
                     (let (v, st2) = store_value st1 pv;
                          st3 = setattr st2 a name v;
                          st4 = (case v of QList l \<Rightarrow> attach st3 l a | _ \<Rightarrow> st3)
                      in (Inr (cached (analyses st4 a) name), st4))))
         else (Inr (cached (analyses st a) name), st))
      else if name = ''id'' then (Inr (Str (track_id (analyses st a))), st)
      else (Inl AttributeError, st))"

text \<open>\<open>AudioAnalysis.refreshCachedVariables\<close>: the loop stops at the first exception.\<close>

fun refresh_loop :: "'d store \<Rightarrow> addr \<Rightarrow> string list \<Rightarrow> (exn + unit) \<times> 'd store" where
  "refresh_loop st a [] = (Inr (), st)"
| "refresh_loop st a (cachedVar # rest) =
     (case getattribute (setattr st a cachedVar PyNone) a cachedVar of
        (Inl e, st1) \<Rightarrow> (Inl e, st1)
      | (Inr v, st1) \<Rightarrow> refresh_loop st1 a rest)"

definition refreshCachedVariables :: "'d store \<Rightarrow> addr \<Rightarrow> (exn + unit) \<times> 'd store" where
  "refreshCachedVariables st a = refresh_loop st a CACHED_VARIABLES"

section \<open>Navigation between quanta\<close>

text \<open>Python's \<open>list.index\<close> (\<open>None\<close> for \<open>ValueError\<close>) and \<open>list.__getitem__\<close> on an integer.\<close>

fun index_of :: "'a list \<Rightarrow> 'a \<Rightarrow> nat option" where
  "index_of [] x = None"
| "index_of (y # ys) x = (if y = x then Some 0 else map_option Suc (index_of ys x))"

definition py_nth :: "'a list \<Rightarrow> int \<Rightarrow> exn + 'a" where
  "py_nth xs i =
     (let n = int (length xs); j = (if i < 0 then i + n else i)
      in if 0 \<le> j \<and> j < n then Inr (xs ! nat j) else Inl IndexError)"

text \<open>The dictionary \<open>pars\<close> of \<open>AudioQuantum.parent\<close>; \<open>None\<close> is \<open>KeyError\<close>.\<close>

definition pars :: "string option \<Rightarrow> string option" where
  "pars k =
     (if k = Some ''tatum'' then Some ''beats''
      else if k = Some ''beat'' then Some ''bars''
      else if k = Some ''bar'' then Some ''sections''
      else None)"

text \<open>
  Modelled from the spec: the module \<open>selection\<close> is imported by \<open>audio.py\<close> and is not
  among the sources. The spec defines \<open>overlap(a, interval of b)\<close> as
  \<open>a.start < b.start + b.duration AND a.start + a.duration > b.start\<close>.
\<close>

definition overlap :: "AudioQuantum \<Rightarrow> AudioQuantum \<Rightarrow> bool" where
  "overlap b a \<longleftrightarrow> start a < start b + duration b \<and> start a + duration a > start b"

text \<open>\<open>AudioQuantumList.that\<close>: a new list with the elements that the filter keeps.\<close>

definition that :: "'d store \<Rightarrow> addr \<Rightarrow> (AudioQuantum \<Rightarrow> bool) \<Rightarrow> addr \<times> 'd store" where
  "that st l filt =
     alloc_qlist st ((AudioQuantumList_init None None)
                       \<lparr>items := filter (\<lambda>a. filt (quanta st a)) (items (qlists st l))\<rparr>)"

text \<open>
  \<open>AudioQuantum.parent\<close>. The bare \<open>except\<close> covers the evaluation of
  \<open>getattr(self.container.container, pars[self.kind])\<close> only: the missing attribute
  \<open>container\<close>, the missing key, \<open>getattr\<close> on \<open>None\<close> and whatever the fetch raises.
  The last line is outside the \<open>try\<close>.
\<close>

definition parent :: "'d store \<Rightarrow> addr \<Rightarrow> (exn + addr) \<times> 'd store" where
  "parent st q =
     (case container (quanta st q) of
        None \<Rightarrow> (Inr q, st)
      | Some l \<Rightarrow>
          (case pars (kind (quanta st q)) of
             None \<Rightarrow> (Inr q, st)
           | Some name \<Rightarrow>
               (case list_container (qlists st l) of
                  None \<Rightarrow> (Inr q, st)
                | Some a \<Rightarrow>
                    (case getattribute st a name of
                       (Inl e, st1) \<Rightarrow> (Inr q, st1)
                     | (Inr (QList uppers), st1) \<Rightarrow>
                         (let (out, st2) = that st1 uppers (overlap (quanta st1 q))
                          in (py_nth (items (qlists st2 out)) 0, st2))
                     | (Inr _, st1) \<Rightarrow> (Inl AttributeError, st1)))))"

text \<open>
  \<open>AudioQuantum.prev\<close> and \<open>AudioQuantum.next\<close>. In both, \<open>group = self.container\<close>
  stands before the \<open>try\<close>, so a missing attribute is not caught.
\<close>

definition prev :: "'d store \<Rightarrow> addr \<Rightarrow> int \<Rightarrow> exn + addr" where
  "prev st q step =
     (case container (quanta st q) of
        None \<Rightarrow> Inl AttributeError
      | Some grp \<Rightarrow>
          (case index_of (items (qlists st grp)) q of
             None \<Rightarrow> Inr q
           | Some loc \<Rightarrow>
               (case py_nth (items (qlists st grp)) (max (int loc - step) 0) of
                  Inl e \<Rightarrow> Inr q
                | Inr new \<Rightarrow> Inr new)))"

definition next_q :: "'d store \<Rightarrow> addr \<Rightarrow> int \<Rightarrow> exn + addr" where
  "next_q st q step =
     (case container (quanta st q) of
        None \<Rightarrow> Inl AttributeError
      | Some grp \<Rightarrow>
          (case index_of (items (qlists st grp)) q of
             None \<Rightarrow> Inr q
           | Some loc \<Rightarrow>
               (case py_nth (items (qlists st grp))
                       (min (int loc + step) (int (length (items (qlists st grp))))) of
                  Inl e \<Rightarrow> Inr q
                | Inr new \<Rightarrow> Inr new)))"

text \<open>
  The outcome of the fetch followed by the field-specific parse, as
  \<open>__getattribute__\<close> performs them for a variable that is still \<open>None\<close>. This is
  the "fetch or parse" that the statements about caching refer to.
\<close>

definition fetch_and_parse ::
  "'d store \<Rightarrow> addr \<Rightarrow> string \<Rightarrow> exn + ('d, AudioQuantum AudioQuantumList) pyval" where
  "fetch_and_parse st a name =
     (case net st (requests st) name (track_id (analyses st a)) of
        Inl e \<Rightarrow> Inl e
      | Inr d \<Rightarrow>
          (case parsers (analyses st a) name of
             None \<Rightarrow> Inr (Doc d)
           | Some parseFunction \<Rightarrow> parseFunction d))"

section \<open>Python numbers\<close>

text \<open>
  The attributes \<open>start\<close> and \<open>duration\<close> that \<open>__getitem__\<close> and \<open>getpieces\<close>
  read are Python numbers, ints or floats, and the code tells them apart
  (\<open>isinstance(index.start, float)\<close>). An int is unbounded. A float is a finite binary64
  value, given as the rational it denotes.

  A float operation yields the exact result rounded to the nearest binary64 value, ties
  to even, with gradual underflow: \<open>round64\<close>. The unit in the last place of \<open>x\<close> is
  \<open>2 ^ e\<close> with \<open>e = \<lfloor>log\<^sub>2 \<bar>x\<bar>\<rfloor> - 52\<close>, and not below \<open>-1074\<close>. A rounded result of
  magnitude \<open>2 ^ 1024\<close> or more is what Python turns into an infinity; the model keeps the
  rational, and the operations that receive it raise as Python does on an infinity.
\<close>

datatype number = IntN int | FloatN rat

fun bit_length :: "nat \<Rightarrow> nat" where
  "bit_length n = (if n = 0 then 0 else Suc (bit_length (n div 2)))"

text \<open>\<open>\<lfloor>log\<^sub>2 x\<rfloor>\<close> for a positive rational.\<close>

definition ilog2 :: "rat \<Rightarrow> int" where
  "ilog2 x =
     (if 1 \<le> x then int (bit_length (nat \<lfloor>x\<rfloor>)) - 1
      else - int (bit_length (nat (\<lceil>1 / x\<rceil> - 1))))"

definition pow2 :: "int \<Rightarrow> rat" where
  "pow2 k = (if 0 \<le> k then 2 ^ nat k else 1 / 2 ^ nat (- k))"

definition round_half_even :: "rat \<Rightarrow> int" where
  "round_half_even x =
     (if x - of_int \<lfloor>x\<rfloor> < 1 / 2 then \<lfloor>x\<rfloor>
      else if 1 / 2 < x - of_int \<lfloor>x\<rfloor> then \<lfloor>x\<rfloor> + 1
      else if even \<lfloor>x\<rfloor> then \<lfloor>x\<rfloor>
      else \<lfloor>x\<rfloor> + 1)"

definition ulp_exponent :: "rat \<Rightarrow> int" where
  "ulp_exponent x = max (ilog2 \<bar>x\<bar> - 52) (- 1074)"

definition round64 :: "rat \<Rightarrow> rat" where
  "round64 x =
     (if x = 0 then 0
      else of_int (round_half_even (x / pow2 (ulp_exponent x))) * pow2 (ulp_exponent x))"

definition overflows :: "rat \<Rightarrow> bool" where
  "overflows x \<longleftrightarrow> 2 ^ 1024 \<le> \<bar>x\<bar>"

text \<open>
  The conversion of an int to a float, which Python applies to the int operand of a mixed
  operation; it raises for an int beyond the range of the floats.
\<close>

definition to_float :: "int \<Rightarrow> exn + rat" where
  "to_float a = (if overflows (round64 (of_int a)) then Inl OverflowError else Inr (round64 (of_int a)))"

text \<open>\<open>x + y\<close> on numbers.\<close>

fun add_num :: "number \<Rightarrow> number \<Rightarrow> exn + number" where
  "add_num (IntN a) (IntN b) = Inr (IntN (a + b))"
| "add_num (IntN a) (FloatN y) =
     (case to_float a of Inl e \<Rightarrow> Inl e | Inr x \<Rightarrow> Inr (FloatN (round64 (x + y))))"
| "add_num (FloatN x) (IntN b) =
     (case to_float b of Inl e \<Rightarrow> Inl e | Inr y \<Rightarrow> Inr (FloatN (round64 (x + y))))"
| "add_num (FloatN x) (FloatN y) = Inr (FloatN (round64 (x + y)))"

text \<open>
  Python's \<open>int\<close> on a float truncates towards zero; on an infinity it raises
  \<open>OverflowError\<close>, on a NaN \<open>ValueError\<close>.
\<close>

definition py_int :: "rat \<Rightarrow> int" where
  "py_int x = (if x < 0 then \<lceil>x\<rceil> else \<lfloor>x\<rfloor>)"

text \<open>
  \<open>int(x*self.sampleRate)\<close>. The product with \<open>None\<close> raises \<open>TypeError\<close>. Two
  ints multiply exactly. A float \<open>x\<close> is multiplied by the sample rate as a float and the
  product is rounded; an infinite \<open>x\<close> (the sum of start and duration can be one) gives
  a NaN with the rate 0 and an infinity otherwise.
\<close>

definition to_sample :: "int option \<Rightarrow> number \<Rightarrow> exn + int" where
  "to_sample sr x =
     (case sr of
        None \<Rightarrow> Inl TypeError
      | Some r \<Rightarrow>
          (case x of
             IntN a \<Rightarrow> Inr (a * r)
           | FloatN v \<Rightarrow>
               (case to_float r of
                  Inl e \<Rightarrow> Inl e
                | Inr fr \<Rightarrow>
                    if overflows v then (if fr = 0 then Inl ValueError else Inl OverflowError)
                    else if overflows (round64 (v * fr)) then Inl OverflowError
                    else Inr (py_int (round64 (v * fr))))))"

text \<open>
  An object with \<open>start\<close> and \<open>duration\<close>, as far as the sample buffers look at it.
  \<open>timed_of\<close> is the view of a quantum whose start and duration are floats, which is
  what the parsers produce for every list of two or more quanta.
\<close>

record timed =
  tstart :: number
  tduration :: number

definition timed_of :: "AudioQuantum \<Rightarrow> timed" where
  "timed_of q = \<lparr>tstart = FloatN (start q), tduration = FloatN (duration q)\<rparr>"

section \<open>Sample arrays\<close>

text \<open>
  A numpy array of 16-bit samples is given by its rows along the first axis and by the
  shape of one row (\<open>tail\<close>, which is \<open>shape[1:]\<close>): \<open>[]\<close> for a one-dimensional array,
  \<open>[c]\<close> for an array with \<open>c\<close> channels. A row holds the samples of one instant.

  Operations between two arrays are modelled for operands with the same \<open>tail\<close>, which is
  what \<open>getpieces\<close> arranges and what \<open>mix\<close> assumes. Along the first axis numpy's rule
  applies: the source must have as many rows as the destination, or exactly one row, which
  is then repeated. Operands with different tails are reported as \<open>ValueError\<close>; numpy
  would broadcast some of them, and no statement below is about them.
\<close>

type_synonym sample = "16 word"
type_synonym frame = "sample list"

record ndarray =
  tail :: "nat list"
  rows :: "frame list"

definition shape :: "ndarray \<Rightarrow> nat list" where
  "shape a = length (rows a) # tail a"

text \<open>\<open>numpy.zeros(shape)\<close>, with the first dimension given apart; a negative one is refused.\<close>

definition zeros :: "int \<Rightarrow> nat list \<Rightarrow> exn + ndarray" where
  "zeros n t =
     (if n < 0 then Inl ValueError
      else Inr \<lparr>tail = t, rows = replicate (nat n) (replicate (prod_list t) 0)\<rparr>)"

text \<open>
  Python's slice \<open>[a:b]\<close> on a sequence of \<open>n\<close> elements: a negative bound counts from
  the end, both bounds are clipped to \<open>[0, n]\<close>, and an absent bound is the end it stands at.
\<close>

definition clip_index :: "nat \<Rightarrow> int \<Rightarrow> nat" where
  "clip_index n i = (if i < 0 then nat (max (i + int n) 0) else min (nat i) n)"

definition slice_indices :: "nat \<Rightarrow> int option \<Rightarrow> int option \<Rightarrow> nat \<times> nat" where
  "slice_indices n a b =
     ((case a of None \<Rightarrow> 0 | Some i \<Rightarrow> clip_index n i),
      (case b of None \<Rightarrow> n | Some j \<Rightarrow> clip_index n j))"

definition slice_rows :: "'a list \<Rightarrow> int option \<Rightarrow> int option \<Rightarrow> 'a list" where
  "slice_rows xs a b = (let (i, j) = slice_indices (length xs) a b in take (j - i) (drop i xs))"

definition getslice_array :: "ndarray \<Rightarrow> int option \<Rightarrow> int option \<Rightarrow> ndarray" where
  "getslice_array arr a b = arr\<lparr>rows := slice_rows (rows arr) a b\<rparr>"

text \<open>Broadcasting \<open>src\<close> along the first axis to \<open>k\<close> rows.\<close>

definition broadcast_rows :: "nat \<Rightarrow> frame list \<Rightarrow> exn + frame list" where
  "broadcast_rows k src =
     (if length src = k then Inr src
      else if length src = 1 then Inr (replicate k (hd src))
      else Inl ValueError)"

text \<open>\<open>dst[a:b] = src\<close>.\<close>

definition set_slice :: "ndarray \<Rightarrow> int option \<Rightarrow> int option \<Rightarrow> ndarray \<Rightarrow> exn + ndarray" where
  "set_slice dst a b src =
     (let (i, j) = slice_indices (length (rows dst)) a b; k = j - i
      in if tail src \<noteq> tail dst then Inl ValueError
         else (case broadcast_rows k (rows src) of
                 Inl e \<Rightarrow> Inl e
               | Inr new \<Rightarrow> Inr (dst\<lparr>rows := take i (rows dst) @ new @ drop (i + k) (rows dst)\<rparr>)))"

text \<open>\<open>dst[a:b] += src\<close>; 16-bit addition wraps around.\<close>

definition add_frames :: "frame \<Rightarrow> frame \<Rightarrow> frame" where
  "add_frames r s = map2 (+) r s"

definition iadd_slice :: "ndarray \<Rightarrow> int option \<Rightarrow> int option \<Rightarrow> ndarray \<Rightarrow> exn + ndarray" where
  "iadd_slice dst a b src =
     (let (i, j) = slice_indices (length (rows dst)) a b; k = j - i
      in if tail src \<noteq> tail dst then Inl ValueError
         else (case broadcast_rows k (rows src) of
                 Inl e \<Rightarrow> Inl e
               | Inr new \<Rightarrow>
                   Inr (dst\<lparr>rows := take i (rows dst)
                                       @ map2 add_frames (take k (drop i (rows dst))) new
                                       @ drop (i + k) (rows dst)\<rparr>)))"

text \<open>
  \<open>arr *= x\<close> with a float \<open>x\<close> on a 16-bit array multiplies each sample as a float,
  rounds the product, and converts it back to 16 bits by truncation.
\<close>

definition scale_sample :: "rat \<Rightarrow> sample \<Rightarrow> sample" where
  "scale_sample x s = word_of_int (py_int (round64 (x * of_int (sint s))))"

definition imul :: "ndarray \<Rightarrow> rat \<Rightarrow> ndarray" where
  "imul arr x = arr\<lparr>rows := map (map (scale_sample x)) (rows arr)\<rparr>"

section \<open>Sample buffers\<close>

text \<open>
  \<open>append\<close> and \<open>mix\<close> mutate the array of a buffer in place and \<open>mix\<close> returns one
  of its arguments, so buffers and arrays are objects in a store.
\<close>

record AudioData =
  filename :: "string option"
  sampleRate :: "int option"
  numChannels :: "nat option"
  data :: "addr option"
  endindex :: nat

record audio_store =
  arrays :: "addr \<Rightarrow> ndarray"
  audios :: "addr \<Rightarrow> AudioData"
  free_array :: addr
  free_audio :: addr

definition new_array :: "audio_store \<Rightarrow> ndarray \<Rightarrow> addr \<times> audio_store" where
  "new_array st arr =
     (free_array st, st\<lparr>arrays := (arrays st)(free_array st := arr), free_array := Suc (free_array st)\<rparr>)"

definition new_audio :: "audio_store \<Rightarrow> AudioData \<Rightarrow> addr \<times> audio_store" where
  "new_audio st obj =
     (free_audio st, st\<lparr>audios := (audios st)(free_audio st := obj), free_audio := Suc (free_audio st)\<rparr>)"

text \<open>
  \<open>AudioData.__init__\<close> without a file name (decoding a file is the codecs' business).
  \<open>init_data\<close> is the choice of \<open>self.data\<close>, \<open>init_copy\<close> the final
  \<open>self.data[0:self.endindex] = ndarray\<close>. When the constructor raises, no object
  comes into being and the store is as before.
\<close>

definition init_data :: "ndarray option \<Rightarrow> (int \<times> nat list) option \<Rightarrow> exn + ndarray option" where
  "init_data nd shp =
     (case shp of
        None \<Rightarrow>
          (case nd of
             Some x \<Rightarrow> (case zeros (int (length (rows x))) (tail x) of
                          Inl e \<Rightarrow> Inl e
                        | Inr z \<Rightarrow> Inr (Some z))
           | None \<Rightarrow> Inr None)
      | Some (n, t) \<Rightarrow> (case zeros n t of Inl e \<Rightarrow> Inl e | Inr z \<Rightarrow> Inr (Some z)))"

definition init_copy :: "ndarray option \<Rightarrow> ndarray option \<Rightarrow> exn + ndarray option \<times> nat" where
  "init_copy d nd =
     (case nd of
        None \<Rightarrow> Inr (d, 0)
      | Some x \<Rightarrow>
          (case d of
             None \<Rightarrow> Inl TypeError
           | Some z \<Rightarrow>
               (case set_slice z (Some 0) (Some (int (length (rows x)))) x of
                  Inl e \<Rightarrow> Inl e
                | Inr z' \<Rightarrow> Inr (Some z', length (rows x)))))"

definition AudioData_init ::
  "audio_store \<Rightarrow> ndarray option \<Rightarrow> (int \<times> nat list) option \<Rightarrow> int option \<Rightarrow> nat option
     \<Rightarrow> (exn + addr) \<times> audio_store" where
  "AudioData_init st nd shp sr nc =
     (case init_data nd shp of
        Inl e \<Rightarrow> (Inl e, st)
      | Inr d \<Rightarrow>
          (case init_copy d nd of
             Inl e \<Rightarrow> (Inl e, st)
           | Inr (None, ei) \<Rightarrow>
               (let (self, st1) = new_audio st \<lparr>filename = None, sampleRate = sr, numChannels = nc,
                                                data = None, endindex = ei\<rparr>
                in (Inr self, st1))
           | Inr (Some arr, ei) \<Rightarrow>
               (let (p, st1) = new_array st arr;
                    (self, st2) = new_audio st1 \<lparr>filename = None, sampleRate = sr, numChannels = nc,
                                                 data = Some p, endindex = ei\<rparr>
                in (Inr self, st2))))"

text \<open>\<open>AudioData.__len__\<close>: the number of rows of the array, not \<open>endindex\<close>.\<close>

definition AudioData_len :: "audio_store \<Rightarrow> addr \<Rightarrow> nat" where
  "AudioData_len st self =
     (case data (audios st self) of None \<Rightarrow> 0 | Some d \<Rightarrow> length (rows (arrays st d)))"

text \<open>
  \<open>AudioData.append\<close>. The right-hand side \<open>as2.data[0:]\<close> is evaluated first, then the
  target; indexing \<open>None\<close> raises \<open>TypeError\<close>. numpy checks the shapes before it
  writes, so a failed assignment leaves the array as it was.
\<close>

definition AudioData_append :: "audio_store \<Rightarrow> addr \<Rightarrow> addr \<Rightarrow> (exn + unit) \<times> audio_store" where
  "AudioData_append st self as2 =
     (case data (audios st as2) of
        None \<Rightarrow> (Inl TypeError, st)
      | Some d2 \<Rightarrow>
          (case data (audios st self) of
             None \<Rightarrow> (Inl TypeError, st)
           | Some d1 \<Rightarrow>
               (case set_slice (arrays st d1)
                       (Some (int (endindex (audios st self))))
                       (Some (int (endindex (audios st self)) + int (AudioData_len st as2)))
                       (getslice_array (arrays st d2) (Some 0) None) of
                  Inl e \<Rightarrow> (Inl e, st)
                | Inr arr \<Rightarrow>
                    (let st1 = st\<lparr>arrays := (arrays st)(d1 := arr)\<rparr>
                     in (Inr (),
                         st1\<lparr>audios := (audios st1)
                                (self := (audios st1 self)
                                   \<lparr>endindex := endindex (audios st1 self) + AudioData_len st1 as2\<rparr>)\<rparr>)))))"

section \<open>Indexing a buffer\<close>

text \<open>
  The index forms that \<open>__getitem__\<close> distinguishes: a float (seconds), an integer, an
  object with \<open>start\<close> and \<open>duration\<close>, and a slice whose bounds are absent, integers,
  floats or such objects. A slice step is not modelled. numpy refuses a slice bound that is
  not an integer, which is the \<open>TypeError\<close> of \<open>slice_bounds\<close>.
\<close>

datatype bound = BNone | BInt int | BFloat rat | BQuantum timed

datatype index = IntIx int | FloatIx rat | QuantumIx timed | SliceIx bound bound

datatype item = Frame frame | Buffer addr

definition bound_of :: "number \<Rightarrow> bound" where
  "bound_of x = (case x of IntN a \<Rightarrow> BInt a | FloatN v \<Rightarrow> BFloat v)"

text \<open>
  \<open>getslice\<close> converts the bounds from seconds to samples only when the start is a
  float; integer bounds are row numbers.
\<close>

fun slice_bounds :: "int option \<Rightarrow> bound \<Rightarrow> bound \<Rightarrow> exn + int option \<times> int option" where
  "slice_bounds sr (BFloat x) b =
     (case to_sample sr (FloatN x) of
        Inl e \<Rightarrow> Inl e
      | Inr i \<Rightarrow>
          (case b of
             BFloat y \<Rightarrow> (case to_sample sr (FloatN y) of Inl e \<Rightarrow> Inl e | Inr j \<Rightarrow> Inr (Some i, Some j))
           | BInt y \<Rightarrow> (case to_sample sr (IntN y) of Inl e \<Rightarrow> Inl e | Inr j \<Rightarrow> Inr (Some i, Some j))
           | _ \<Rightarrow> Inl TypeError))"
| "slice_bounds sr (BInt i) (BInt j) = Inr (Some i, Some j)"
| "slice_bounds sr (BInt i) BNone = Inr (Some i, None)"
| "slice_bounds sr BNone (BInt j) = Inr (None, Some j)"
| "slice_bounds sr BNone BNone = Inr (None, None)"
| "slice_bounds sr _ _ = Inl TypeError"

definition getslice :: "audio_store \<Rightarrow> addr \<Rightarrow> bound \<Rightarrow> bound \<Rightarrow> (exn + addr) \<times> audio_store" where
  "getslice st self a b =
     (case slice_bounds (sampleRate (audios st self)) a b of
        Inl e \<Rightarrow> (Inl e, st)
      | Inr (i, j) \<Rightarrow>
          (case data (audios st self) of
             None \<Rightarrow> (Inl TypeError, st)
           | Some d \<Rightarrow>
               AudioData_init st (Some (getslice_array (arrays st d) i j)) None
                 (sampleRate (audios st self)) None))"

definition getsample :: "audio_store \<Rightarrow> addr \<Rightarrow> int \<Rightarrow> exn + frame" where
  "getsample st self i =
     (case data (audios st self) of
        None \<Rightarrow> Inl TypeError
      | Some d \<Rightarrow> py_nth (rows (arrays st d)) i)"

definition wrap_buffer :: "(exn + addr) \<times> audio_store \<Rightarrow> (exn + item) \<times> audio_store" where
  "wrap_buffer r = (case r of (Inl e, st) \<Rightarrow> (Inl e, st) | (Inr a, st) \<Rightarrow> (Inr (Buffer a), st))"

text \<open>
  \<open>AudioData.__getitem__\<close>. An object with \<open>start\<close> and \<open>duration\<close> becomes
  \<open>slice(index.start, index.start+index.duration)\<close>, with the sum of the two numbers as
  Python forms it; whether \<open>getslice\<close> converts then depends on the type of the start.
\<close>

fun getitem :: "audio_store \<Rightarrow> addr \<Rightarrow> index \<Rightarrow> (exn + item) \<times> audio_store" where
  "getitem st self (FloatIx x) =
     (case to_sample (sampleRate (audios st self)) (FloatN x) of
        Inl e \<Rightarrow> (Inl e, st)
      | Inr i \<Rightarrow> (case getsample st self i of Inl e \<Rightarrow> (Inl e, st) | Inr f \<Rightarrow> (Inr (Frame f), st)))"
| "getitem st self (QuantumIx q) =
     (case add_num (tstart q) (tduration q) of
        Inl e \<Rightarrow> (Inl e, st)
      | Inr stop \<Rightarrow> wrap_buffer (getslice st self (bound_of (tstart q)) (bound_of stop)))"
| "getitem st self (SliceIx (BQuantum q1) (BQuantum q2)) =
     (case add_num (tstart q2) (tduration q2) of
        Inl e \<Rightarrow> (Inl e, st)
      | Inr stop \<Rightarrow> wrap_buffer (getslice st self (bound_of (tstart q1)) (bound_of stop)))"
| "getitem st self (SliceIx a b) = wrap_buffer (getslice st self a b)"
| "getitem st self (IntIx i) =
     (case getsample st self i of Inl e \<Rightarrow> (Inl e, st) | Inr f \<Rightarrow> (Inr (Frame f), st))"

section \<open>Assembling and mixing\<close>

text \<open>The first loop of \<open>getpieces\<close>: \<open>dur += int(s.duration*audioData.sampleRate)\<close>.\<close>

fun sum_durations :: "int option \<Rightarrow> int \<Rightarrow> timed list \<Rightarrow> exn + int" where
  "sum_durations sr dur [] = Inr dur"
| "sum_durations sr dur (s # segs) =
     (case to_sample sr (tduration s) of
        Inl e \<Rightarrow> Inl e
      | Inr n \<Rightarrow> sum_durations sr (dur + n) segs)"

text \<open>
  The second loop: \<open>newAD.append(audioData[s])\<close>. Indexing by a quantum yields a buffer.
\<close>

fun append_pieces ::
  "audio_store \<Rightarrow> addr \<Rightarrow> addr \<Rightarrow> timed list \<Rightarrow> (exn + unit) \<times> audio_store" where
  "append_pieces st newAD audioData [] = (Inr (), st)"
| "append_pieces st newAD audioData (s # segs) =
     (case getitem st audioData (QuantumIx s) of
        (Inl e, st1) \<Rightarrow> (Inl e, st1)
      | (Inr (Frame f), st1) \<Rightarrow> (Inl AttributeError, st1)
      | (Inr (Buffer piece), st1) \<Rightarrow>
          (case AudioData_append st1 newAD piece of
             (Inl e, st2) \<Rightarrow> (Inl e, st2)
           | (Inr u, st2) \<Rightarrow> append_pieces st2 newAD audioData segs))"

definition getpieces ::
  "audio_store \<Rightarrow> addr \<Rightarrow> timed list \<Rightarrow> (exn + addr) \<times> audio_store" where
  "getpieces st audioData segs =
     (case sum_durations (sampleRate (audios st audioData)) 0 segs of
        Inl e \<Rightarrow> (Inl e, st)
      | Inr dur0 \<Rightarrow>
          (case data (audios st audioData) of
             None \<Rightarrow> (Inl AttributeError, st)
           | Some d \<Rightarrow>
               (let dur = dur0 + 100000;
                    (newtail, newchans) =
                       (if length (shape (arrays st d)) > 1
                        then ([shape (arrays st d) ! 1], shape (arrays st d) ! 1)
                        else ([], 1))
                in (case AudioData_init st None (Some (dur, newtail))
                           (sampleRate (audios st audioData)) (Some newchans) of
                      (Inl e, st1) \<Rightarrow> (Inl e, st1)
                    | (Inr newAD, st1) \<Rightarrow>
                        (case append_pieces st1 newAD audioData segs of
                           (Inl e, st2) \<Rightarrow> (Inl e, st2)
                         | (Inr u, st2) \<Rightarrow> (Inr newAD, st2))))))"

text \<open>\<open>arr *= x\<close> and \<open>dst[a:b] += src\<close> on the arrays of the store.\<close>

definition imul_at :: "audio_store \<Rightarrow> addr \<Rightarrow> rat \<Rightarrow> audio_store" where
  "imul_at st d x = st\<lparr>arrays := (arrays st)(d := imul (arrays st d) x)\<rparr>"

definition iadd_at ::
  "audio_store \<Rightarrow> addr \<Rightarrow> int option \<Rightarrow> int option \<Rightarrow> ndarray \<Rightarrow> (exn + unit) \<times> audio_store" where
  "iadd_at st d a b src =
     (case iadd_slice (arrays st d) a b src of
        Inl e \<Rightarrow> (Inl e, st)
      | Inr arr \<Rightarrow> (Inr (), st\<lparr>arrays := (arrays st)(d := arr)\<rparr>))"

text \<open>
  \<open>mix\<close>. The two arrays are scaled first, so an exception raised later leaves them
  scaled. The third test of the chain is the source's \<open>audioDataA.endindex ==
  audioDataA.endindex\<close>; a function that falls off its end returns \<open>None\<close>. The
  addition is the shared last step of the three branches,
  \<open>dst.data[:stop] += src.data[lo:]\<close> followed by \<open>return dst\<close>.
\<close>

definition mix_add ::
  "audio_store \<Rightarrow> addr \<Rightarrow> int option \<Rightarrow> addr \<Rightarrow> int option \<Rightarrow> (exn + addr option) \<times> audio_store" where
  "mix_add st dst stop src lo =
     (case (data (audios st dst), data (audios st src)) of
        (Some dd, Some ds) \<Rightarrow>
          (case iadd_at st dd None stop (getslice_array (arrays st ds) lo None) of
             (Inl e, st1) \<Rightarrow> (Inl e, st1)
           | (Inr u, st1) \<Rightarrow> (Inr (Some dst), st1))
      | _ \<Rightarrow> (Inl TypeError, st))"

definition mix_scale :: "audio_store \<Rightarrow> addr \<Rightarrow> addr \<Rightarrow> rat \<Rightarrow> (exn + unit) \<times> audio_store" where
  "mix_scale st audioDataA audioDataB m =
     (case data (audios st audioDataA) of
        None \<Rightarrow> (Inl TypeError, st)
      | Some da \<Rightarrow>
          (let st1 = imul_at st da m
           in (case data (audios st1 audioDataB) of
                 None \<Rightarrow> (Inl TypeError, st1)
               | Some db \<Rightarrow> (Inr (), imul_at st1 db (round64 (1 - m))))))"

definition mix :: "audio_store \<Rightarrow> addr \<Rightarrow> addr \<Rightarrow> rat \<Rightarrow> (exn + addr option) \<times> audio_store" where
  "mix st audioDataA audioDataB m =
     (case mix_scale st audioDataA audioDataB m of
        (Inl e, st2) \<Rightarrow> (Inl e, st2)
      | (Inr u, st2) \<Rightarrow>
          (if endindex (audios st2 audioDataA) > endindex (audios st2 audioDataB) then
             mix_add st2 audioDataA (Some (int (endindex (audios st2 audioDataB)))) audioDataB (Some 0)
           else if endindex (audios st2 audioDataB) > endindex (audios st2 audioDataA) then
             mix_add st2 audioDataB (Some (int (endindex (audios st2 audioDataA)))) audioDataA (Some 0)
           else if endindex (audios st2 audioDataA) = endindex (audios st2 audioDataA) then
             mix_add st2 audioDataA None audioDataB None
           else (Inr None, st2)))"

text \<open>
  The bounds of the slice that \<open>__getitem__\<close> and \<open>getslice\<close> compute for an object
  with \<open>start\<close> and \<open>duration\<close> at the sample rate \<open>sr\<close>, the rows that the slice
  selects (none when the computation raises), and the number of rows that the first loop
  of \<open>getpieces\<close> counts for the object (0 when the conversion raises).
\<close>

definition piece_bounds :: "int option \<Rightarrow> timed \<Rightarrow> exn + int option \<times> int option" where
  "piece_bounds sr q =
     (case add_num (tstart q) (tduration q) of
        Inl e \<Rightarrow> Inl e
      | Inr stop \<Rightarrow> slice_bounds sr (bound_of (tstart q)) (bound_of stop))"

definition piece :: "ndarray \<Rightarrow> int option \<Rightarrow> timed \<Rightarrow> frame list" where
  "piece arr sr q =
     (case piece_bounds sr q of Inl e \<Rightarrow> [] | Inr (i, j) \<Rightarrow> slice_rows (rows arr) i j)"

definition counted :: "int option \<Rightarrow> timed \<Rightarrow> int" where
  "counted sr q = (case to_sample sr (tduration q) of Inl e \<Rightarrow> 0 | Inr n \<Rightarrow> n)"

text \<open>An object converts when neither computation raises.\<close>

definition converts :: "int option \<Rightarrow> timed \<Rightarrow> bool" where
  "converts sr q \<longleftrightarrow> \<not> isl (piece_bounds sr q) \<and> \<not> isl (to_sample sr (tduration q))"

section \<open>Definitions that follow the spec\<close>

text \<open>
  The variant of \<open>mix\<close> that the spec asks for: the same function with the third test
  replaced by the three-way comparison \<open>audioDataA.endindex == audioDataB.endindex\<close>.
\<close>

definition mix_intended ::
  "audio_store \<Rightarrow> addr \<Rightarrow> addr \<Rightarrow> rat \<Rightarrow> (exn + addr option) \<times> audio_store" where
  "mix_intended st audioDataA audioDataB m =
     (case mix_scale st audioDataA audioDataB m of
        (Inl e, st2) \<Rightarrow> (Inl e, st2)
      | (Inr u, st2) \<Rightarrow>
          (if endindex (audios st2 audioDataA) > endindex (audios st2 audioDataB) then
             mix_add st2 audioDataA (Some (int (endindex (audios st2 audioDataB)))) audioDataB (Some 0)
           else if endindex (audios st2 audioDataB) > endindex (audios st2 audioDataA) then
             mix_add st2 audioDataB (Some (int (endindex (audios st2 audioDataA)))) audioDataA (Some 0)
           else if endindex (audios st2 audioDataA) = endindex (audios st2 audioDataB) then
             mix_add st2 audioDataA None audioDataB None
           else (Inr None, st2)))"

text \<open>
  The length that the spec gives for the assembled buffer,
  \<open>sum(round(q.duration * sampleRate) for q in orderedQuanta)\<close>, with Python's \<open>round\<close>
  (halves away from zero) on the product as Python forms it: exact for two ints, rounded
  to a float otherwise.
\<close>

definition py_round :: "rat \<Rightarrow> int" where
  "py_round x = (if x < 0 then \<lceil>x - 1/2\<rceil> else \<lfloor>x + 1/2\<rfloor>)"

definition rate_product :: "number \<Rightarrow> int \<Rightarrow> rat" where
  "rate_product x r =
     (case x of IntN a \<Rightarrow> of_int (a * r) | FloatN v \<Rightarrow> round64 (v * round64 (of_int r)))"

definition spec_assembled_length :: "int \<Rightarrow> timed list \<Rightarrow> int" where
  "spec_assembled_length sr segs = sum_list (map (\<lambda>q. py_round (rate_product (tduration q) sr)) segs)"

section \<open>Example inputs\<close>


text \<open>
  A store with one list of three tatums, attached to no analysis, and a fourth tatum
  at address 3 that was constructed and never attached.
\<close>

definition nav_store :: "nat store" where
  "nav_store =
     \<lparr>quanta = (\<lambda>a. \<lparr>start = of_nat a, duration = 1, kind = Some ''tatum'', confidence = None,
                       container = (if a < 3 then Some 0 else None)\<rparr>),
      qlists = (\<lambda>l. \<lparr>list_kind = Some ''tatum'', list_container = None,
                      items = (if l = 0 then [0, 1, 2] else [])\<rparr>),
      analyses = (\<lambda>a. \<lparr>track_id = ''TR'', parsers = (\<lambda>n. None), cached = (\<lambda>n. PyNone)\<rparr>),
      free_quantum = 4, free_qlist = 1,
      net = (\<lambda>k name tid. Inl FetchError), requests = 0\<rparr>"

text \<open>
  An analysis whose parser for \<open>tempo\<close> reads the document as a number. The network
  fails on the first request and answers 120 afterwards.
\<close>

definition facade_store :: "nat store" where
  "facade_store =
     \<lparr>quanta = (\<lambda>a. AudioQuantum_init 0 0 None None),
      qlists = (\<lambda>l. AudioQuantumList_init None None),
      analyses = (\<lambda>a. \<lparr>track_id = ''TR'',
                        parsers = (\<lambda>n. if n = ''tempo'' then Some (\<lambda>d. Inr (Num (of_nat d))) else None),
                        cached = (\<lambda>n. PyNone)\<rparr>),
      free_quantum = 0, free_qlist = 0,
      net = (\<lambda>k name tid. if k = 0 then Inl FetchError else Inr 120), requests = 0\<rparr>"

text \<open>
  An analysis whose parser for \<open>tempo\<close> returns \<open>None\<close>, over a network that always
  answers.
\<close>

definition none_parser_store :: "nat store" where
  "none_parser_store =
     \<lparr>quanta = (\<lambda>a. AudioQuantum_init 0 0 None None),
      qlists = (\<lambda>l. AudioQuantumList_init None None),
      analyses = (\<lambda>a. \<lparr>track_id = ''TR'',
                        parsers = (\<lambda>n. if n = ''tempo'' then Some (\<lambda>d. Inr PyNone) else None),
                        cached = (\<lambda>n. PyNone)\<rparr>),
      free_quantum = 0, free_qlist = 0,
      net = (\<lambda>k name tid. Inr 120), requests = 0\<rparr>"

text \<open>The store after the second request, which succeeds.\<close>

definition fetched_store :: "nat store" where
  "fetched_store = snd (getattribute (facade_store\<lparr>requests := 1\<rparr>) 0 ''tempo'')"

text \<open>
  Four one-channel buffers at 4 samples per second: buffer 0 has room for five rows and
  holds two, buffer 1 has room for three and holds one, buffer 2 is a single row, and
  buffer 3 is full with two rows.
\<close>

definition buf_store :: audio_store where
  "buf_store =
     \<lparr>arrays = (\<lambda>d. \<lparr>tail = [1],
                      rows = (if d = 0 then [[1], [2], [0], [0], [0]]
                              else if d = 1 then [[7], [0], [0]]
                              else if d = 2 then [[9]]
                              else [[5], [6]])\<rparr>),
      audios = (\<lambda>a. \<lparr>filename = None, sampleRate = Some 4, numChannels = Some 1, data = Some a,
                      endindex = (if a = 0 then 2 else if a = 1 then 1 else if a = 2 then 1 else 2)\<rparr>),
      free_array = 4, free_audio = 4\<rparr>"

text \<open>
  Objects with float start and duration: \<open>quantum_a\<close> covers the first 7/16 of a second,
  \<open>quantum_b\<close> half a second from 1/4, and \<open>quantum_c\<close> one second from 1. At 4 samples
  per second these are the rows \<open>[0:1]\<close>, \<open>[1:3]\<close> and \<open>[4:8]\<close>; buffer 0 ends at row 5.
  \<open>quantum_i\<close> has int start 1 and int duration 2, as
  \<open>AudioQuantum(start=1, duration=2)\<close> has; \<open>tenths\<close> is 0.3 seconds, the float nearest
  to 3/10.
\<close>

definition quantum_a :: timed where
  "quantum_a = \<lparr>tstart = FloatN 0, tduration = FloatN (7/16)\<rparr>"

definition quantum_b :: timed where
  "quantum_b = \<lparr>tstart = FloatN (1/4), tduration = FloatN (1/2)\<rparr>"

definition quantum_c :: timed where
  "quantum_c = \<lparr>tstart = FloatN 1, tduration = FloatN 1\<rparr>"

definition quantum_i :: timed where
  "quantum_i = \<lparr>tstart = IntN 1, tduration = IntN 2\<rparr>"

definition tenths :: rat where
  "tenths = 5404319552844595 / 2 ^ 54"

section \<open>Properties of the parsers\<close>


lemma parse_nodes_start:
  "parse_nodes tag ns = Inr qs \<Longrightarrow> i < length ns \<Longrightarrow> data_float (ns ! i) = Inr (start (qs ! i))"
  by (induction ns arbitrary: qs i) (auto split: sum.splits simp: AudioQuantum_init_def nth_Cons split: nat.splits)







section \<open>Properties of the cache\<close>

lemma store_value_frame:
  "requests (snd (store_value st pv)) = requests st"
  "analyses (snd (store_value st pv)) = analyses st"
  "net (snd (store_value st pv)) = net st"
  by (cases pv; simp add: alloc_quanta_def alloc_qlist_def Let_def split: prod.splits)+

lemma store_value_PyNone:
  "fst (store_value st pv) = PyNone \<longleftrightarrow> pv = PyNone"
  by (cases pv; simp add: alloc_quanta_def alloc_qlist_def Let_def split: prod.splits)

lemma store_value_frameD:
  "store_value st pv = (v, st') \<Longrightarrow>
     requests st' = requests st \<and> analyses st' = analyses st \<and> net st' = net st \<and>
     (v = PyNone \<longleftrightarrow> pv = PyNone)"
  using store_value_frame [of st pv] store_value_PyNone [of st pv] by simp

lemma attach_frame:
  "requests (attach st l c) = requests st"
  "analyses (attach st l c) = analyses st"
  "net (attach st l c) = net st"
  by (simp_all add: attach_def Let_def)

lemma setattr_frame:
  "requests (setattr st a name v) = requests st"
  "net (setattr st a name v) = net st"
  "cached (analyses (setattr st a name v) a) name = v"
  "track_id (analyses (setattr st a name v) b) = track_id (analyses st b)"
  "parsers (analyses (setattr st a name v) b) = parsers (analyses st b)"
  by (simp_all add: setattr_def)

lemma getattribute_cached:
  assumes "name \<in> set CACHED_VARIABLES" "cached (analyses st a) name \<noteq> PyNone"
  shows "getattribute st a name = (Inr (cached (analyses st a) name), st)"
  using assms by (simp add: getattribute_def)

lemma getattribute_fetch_fails:
  assumes "name \<in> set CACHED_VARIABLES" "cached (analyses st a) name = PyNone"
    and "net st (requests st) name (track_id (analyses st a)) = Inl e"
  shows "getattribute st a name = (Inl e, st\<lparr>requests := Suc (requests st)\<rparr>)"
  using assms by (simp add: getattribute_def fetch_def)

lemma getattribute_parse_fails:
  assumes "name \<in> set CACHED_VARIABLES" "cached (analyses st a) name = PyNone"
    and "net st (requests st) name (track_id (analyses st a)) = Inr d"
    and "parsers (analyses st a) name = Some f" "f d = Inl e"
  shows "getattribute st a name = (Inl e, st\<lparr>requests := Suc (requests st)\<rparr>)"
  using assms by (simp add: getattribute_def fetch_def)

lemma getattribute_requests:
  assumes "name \<in> set CACHED_VARIABLES" "cached (analyses st a) name = PyNone"
  shows "requests (snd (getattribute st a name)) = Suc (requests st)"
  using assms
  by (auto simp: getattribute_def fetch_def Let_def attach_frame setattr_frame
           split: sum.splits prod.splits pyval.splits dest!: store_value_frameD)

lemma getattribute_success:
  assumes "name \<in> set CACHED_VARIABLES" "getattribute st a name = (Inr v, st')"
  shows "cached (analyses st' a) name = v"
  using assms
  by (auto simp: getattribute_def fetch_def Let_def attach_frame setattr_frame
           split: sum.splits prod.splits pyval.splits if_splits dest!: store_value_frameD)

lemma getattribute_error_cases:
  assumes "name \<in> set CACHED_VARIABLES" "fst (getattribute st a name) = Inl e"
  shows "cached (analyses st a) name = PyNone \<and>
         (net st (requests st) name (track_id (analyses st a)) = Inl e \<or>
          (\<exists>d f. net st (requests st) name (track_id (analyses st a)) = Inr d \<and>
                 parsers (analyses st a) name = Some f \<and> f d = Inl e))"
  using assms
  by (auto simp: getattribute_def fetch_def Let_def
           split: sum.splits prod.splits pyval.splits if_splits option.splits)

lemma getattribute_error_iff:
  assumes "name \<in> set CACHED_VARIABLES" "cached (analyses st a) name = PyNone"
  shows "fst (getattribute st a name) = Inl e \<longleftrightarrow> fetch_and_parse st a name = Inl e"
  using assms
  by (auto simp: getattribute_def fetch_def fetch_and_parse_def Let_def
           split: sum.splits prod.splits pyval.splits option.splits)

lemma getattribute_error_state:
  assumes "name \<in> set CACHED_VARIABLES" "cached (analyses st a) name = PyNone"
    and "fetch_and_parse st a name = Inl e"
  shows "getattribute st a name = (Inl e, st\<lparr>requests := Suc (requests st)\<rparr>)"
  using assms
  by (auto simp: getattribute_def fetch_def fetch_and_parse_def Let_def
           split: sum.splits prod.splits pyval.splits option.splits)

lemma later_accesses:
  assumes n: "name \<in> set CACHED_VARIABLES" and g: "getattribute st a name = (Inr v, st')"
    and v: "v \<noteq> PyNone"
  shows "getattribute (((\<lambda>s. snd (getattribute s a name)) ^^ k) st') a name = (Inr v, st')"
proof -
  have c: "cached (analyses st' a) name = v" using getattribute_success [OF n g] .
  have one: "getattribute st' a name = (Inr v, st')"
    using getattribute_cached [OF n, of st' a] c v by simp
  have "((\<lambda>s. snd (getattribute s a name)) ^^ k) st' = st'"
    by (induction k) (simp_all add: one)
  then show ?thesis using one by simp
qed

text \<open>
  Claim C8, amended. For a cached variable that is still \<open>None\<close>, an access raises
  exactly when the fetch or the parse raises, and with the same exception; the store is
  then as before apart from the request counter, so nothing has been cached, and the next
  access sends a new request. Once an access has returned a value other than \<open>None\<close>,
  every later access returns that value and leaves the store, request counter included,
  as it is.
\<close>

theorem cached_field_contract:
  assumes "name \<in> set CACHED_VARIABLES"
  shows "(cached (analyses st a) name = PyNone \<longrightarrow>
            (fst (getattribute st a name) = Inl e \<longleftrightarrow> fetch_and_parse st a name = Inl e) \<and>
            (fetch_and_parse st a name = Inl e \<longrightarrow>
               getattribute st a name = (Inl e, st\<lparr>requests := Suc (requests st)\<rparr>) \<and>
               requests (snd (getattribute (st\<lparr>requests := Suc (requests st)\<rparr>) a name))
                 = Suc (Suc (requests st)))) \<and>
         (getattribute st a name = (Inr v, st') \<and> v \<noteq> PyNone \<longrightarrow>
            (\<forall>k. getattribute (((\<lambda>s. snd (getattribute s a name)) ^^ k) st') a name = (Inr v, st')))"
proof (intro conjI impI allI)
  assume u: "cached (analyses st a) name = PyNone"
  show "fst (getattribute st a name) = Inl e \<longleftrightarrow> fetch_and_parse st a name = Inl e"
    using getattribute_error_iff [OF assms u] .
next
  assume u: "cached (analyses st a) name = PyNone" and f: "fetch_and_parse st a name = Inl e"
  show "getattribute st a name = (Inl e, st\<lparr>requests := Suc (requests st)\<rparr>)"
    using getattribute_error_state [OF assms u f] .
  show "requests (snd (getattribute (st\<lparr>requests := Suc (requests st)\<rparr>) a name))
          = Suc (Suc (requests st))"
    using getattribute_requests [OF assms, of "st\<lparr>requests := Suc (requests st)\<rparr>" a] u by simp
next
  fix k
  assume "getattribute st a name = (Inr v, st') \<and> v \<noteq> PyNone"
  then show "getattribute (((\<lambda>s. snd (getattribute s a name)) ^^ k) st') a name = (Inr v, st')"
    using later_accesses [OF assms] by blast
qed


text \<open>
  A parser may return \<open>None\<close>. The access then succeeds, \<open>None\<close> is what gets
  stored, and the next access fetches again: \<open>None\<close> is also the mark of a variable that
  has not been fetched.
\<close>

theorem none_value_refetched:
  "fst (getattribute none_parser_store 0 ''tempo'') = Inr PyNone \<and>
   requests (snd (getattribute none_parser_store 0 ''tempo'')) = 1 \<and>
   fst (getattribute (snd (getattribute none_parser_store 0 ''tempo'')) 0 ''tempo'') = Inr PyNone \<and>
   requests (snd (getattribute (snd (getattribute none_parser_store 0 ''tempo'')) 0 ''tempo'')) = 2"
  by (simp add: none_parser_store_def getattribute_def CACHED_VARIABLES_def fetch_def setattr_def)

theorem cached_field_contract_witness:
  "''tempo'' \<in> set CACHED_VARIABLES \<and>
   cached (analyses facade_store 0) ''tempo'' = PyNone \<and>
   fetch_and_parse facade_store 0 ''tempo'' = Inl FetchError \<and>
   getattribute facade_store 0 ''tempo'' = (Inl FetchError, facade_store\<lparr>requests := Suc 0\<rparr>) \<and>
   requests (snd (getattribute (facade_store\<lparr>requests := Suc 0\<rparr>) 0 ''tempo'')) = Suc (Suc 0) \<and>
   getattribute (facade_store\<lparr>requests := Suc 0\<rparr>) 0 ''tempo'' = (Inr (Num 120), fetched_store) \<and>
   (\<forall>k. getattribute (((\<lambda>s. snd (getattribute s 0 ''tempo'')) ^^ k) fetched_store) 0 ''tempo''
          = (Inr (Num 120), fetched_store))"
proof -
  have n: "''tempo'' \<in> set CACHED_VARIABLES"
    by (simp add: CACHED_VARIABLES_def)
  have u: "cached (analyses facade_store 0) ''tempo'' = PyNone"
    by (simp add: facade_store_def)
  have f: "fetch_and_parse facade_store 0 ''tempo'' = Inl FetchError"
    by (simp add: facade_store_def fetch_and_parse_def)
  have r: "requests facade_store = 0"
    by (simp add: facade_store_def)
  have g: "fst (getattribute (facade_store\<lparr>requests := Suc 0\<rparr>) 0 ''tempo'') = Inr (Num 120)"
    by (simp add: facade_store_def getattribute_def CACHED_VARIABLES_def fetch_def setattr_def)
  have g': "getattribute (facade_store\<lparr>requests := Suc 0\<rparr>) 0 ''tempo'' = (Inr (Num 120), fetched_store)"
    using g by (simp add: fetched_store_def prod_eq_iff)
  have v: "Num 120 \<noteq> (PyNone :: (nat, addr) pyval)" by simp
  note c1 = cached_field_contract [OF n, of facade_store 0 FetchError]
  note c2 = cached_field_contract [OF n, of "facade_store\<lparr>requests := Suc 0\<rparr>" 0 _ "Num 120" fetched_store]
  show ?thesis using n u f r g' v c1 c2 by simp
qed

section \<open>Properties of the navigation\<close>

lemma py_nth_length: "py_nth xs (int (length xs)) = Inl IndexError"
  by (simp add: py_nth_def)

lemma parent_section_self:
  "kind (quanta st q) = Some ''section'' \<Longrightarrow> parent st q = (Inr q, st)"
  by (simp add: parent_def pars_def split: option.splits)

lemma parent_unattached_self:
  "container (quanta st q) = None \<Longrightarrow> parent st q = (Inr q, st)"
  by (simp add: parent_def)

lemma prev_unattached:
  "container (quanta st q) = None \<Longrightarrow> prev st q step = Inl AttributeError"
  by (simp add: prev_def)

lemma next_unattached:
  "container (quanta st q) = None \<Longrightarrow> next_q st q step = Inl AttributeError"
  by (simp add: next_q_def)

text \<open>
  Claim C4. A section is its own parent, whatever the store (\<open>parent_section_self\<close>),
  and so is a quantum without a container. \<open>prev\<close> on a quantum that was never attached
  does not return the quantum: reading \<open>self.container\<close> happens before the \<open>try\<close>,
  and the \<open>AttributeError\<close> reaches the caller.
\<close>

theorem prev_unattached_raises:
  "container (quanta nav_store 3) = None \<and> prev nav_store 3 1 = Inl AttributeError"
  by (simp add: nav_store_def prev_def)

text \<open>
  Claim C10. For a quantum found at index \<open>loc\<close> of its container, a step that leads to
  the length of the container or beyond is clamped to the length; the lookup at that
  index raises \<open>IndexError\<close>, and \<open>next\<close> returns the quantum itself.
\<close>

theorem next_past_end_is_self:
  assumes "container (quanta st q) = Some g"
    and "index_of (items (qlists st g)) q = Some loc"
    and "int (length (items (qlists st g))) \<le> int loc + step"
  shows "py_nth (items (qlists st g)) (min (int loc + step) (int (length (items (qlists st g)))))
           = Inl IndexError \<and>
         next_q st q step = Inr q"
  using assms by (simp add: next_q_def min_absorb2 py_nth_length)

theorem next_past_end_is_self_witness:
  "container (quanta nav_store 1) = Some 0 \<and>
   index_of (items (qlists nav_store 0)) 1 = Some 1 \<and>
   int (length (items (qlists nav_store 0))) \<le> int 1 + 2 \<and>
   py_nth (items (qlists nav_store 0)) (min (int 1 + 2) (int (length (items (qlists nav_store 0)))))
     = Inl IndexError \<and>
   next_q nav_store 1 2 = Inr 1"
proof -
  have c: "container (quanta nav_store 1) = Some 0"
    by (simp add: nav_store_def)
  have i: "index_of (items (qlists nav_store 0)) 1 = Some 1"
    by (simp add: nav_store_def)
  have l: "int (length (items (qlists nav_store 0))) \<le> int 1 + 2"
    by (simp add: nav_store_def)
  show ?thesis using c i l next_past_end_is_self [OF c i l] by simp
qed

text \<open>Within the list, \<open>next\<close> and \<open>prev\<close> step; \<open>prev\<close> stops at the first element.\<close>

lemma next_within_list: "next_q nav_store 0 1 = Inr 1 \<and> prev nav_store 2 1 = Inr 1 \<and> prev nav_store 0 1 = Inr 0"
  by (simp add: nav_store_def next_q_def prev_def py_nth_def)

lemma next_last_differs: "next_q nav_store 0 2 = Inr 2 \<and> next_q nav_store 0 3 = Inr 0"
  by (simp add: nav_store_def next_q_def prev_def py_nth_def)

section \<open>Evaluating float conversions\<close>

lemma floor_rat_divide_numeral [simp]:
  "\<lfloor>(numeral a :: rat) / numeral b\<rfloor> = numeral a div numeral b"
  by (metis floor_divide_of_int_eq of_int_numeral)

lemma ceiling_rat_divide_numeral [simp]:
  "\<lceil>(numeral a :: rat) / numeral b\<rceil> = - (- numeral a div numeral b)"
  by (metis ceiling_divide_eq_div of_int_numeral)

lemma floor_rat_one_divide_numeral [simp]:
  "\<lfloor>(1 :: rat) / numeral b\<rfloor> = 1 div numeral b"
  by (metis floor_divide_of_int_eq of_int_numeral of_int_1)

lemma ceiling_rat_one_divide_numeral [simp]:
  "\<lceil>(1 :: rat) / numeral b\<rceil> = - (- 1 div numeral b)"
  by (metis ceiling_divide_eq_div of_int_numeral of_int_1)

lemmas round64_eval =
  round64_def ulp_exponent_def ilog2_def pow2_def round_half_even_def overflows_def to_float_def

lemma py_int_examples:
  "py_int (7/4) = 1" "py_int (-7/4) = -1" "py_int 3 = 3"
  "py_round (7/4) = 2" "py_round (5/2) = 3" "py_round (-5/2) = -3" "py_round (9/4) = 2"
  by (simp_all add: py_int_def py_round_def ceiling_minus floor_minus)

text \<open>
  The float nearest to 3/10 lies below it. Its products with 10 and with 44100 lie below
  3 and 13230 and round to them, so the conversions give 3 and 13230 samples, where
  truncating the exact products would give 2 and 13229.
\<close>

lemma round64_examples:
  "round64 (3/10) = tenths" "round64 (7/4) = 7/4" "round64 (tenths * 10) = 3"
  "tenths * 10 < 3" "round64 (tenths * 44100) = 13230"
  by (simp_all add: round64_eval tenths_def)

lemma to_sample_examples:
  "to_sample (Some 10) (FloatN tenths) = Inr 3"
  "to_sample (Some 44100) (FloatN tenths) = Inr 13230"
  "to_sample (Some 4) (FloatN (7/16)) = Inr 1"
  "to_sample (Some 4) (IntN 3) = Inr 12"
  "to_sample None (IntN 3) = Inl TypeError"
  by (simp_all add: to_sample_def py_int_def round64_eval tenths_def)

section \<open>Properties of the sample buffers\<close>

lemma clip_index_nat [simp]: "clip_index n (int i) = min i n"
  by (simp add: clip_index_def)

lemma clip_index_add [simp]: "clip_index n (int i + int j) = min (i + j) n"
  by (simp add: clip_index_def)

lemma clip_index_0 [simp]: "clip_index n 0 = 0"
  by (simp add: clip_index_def)

lemma slice_rows_all [simp]: "slice_rows xs (Some 0) None = xs" "slice_rows xs None None = xs"
  by (simp_all add: slice_rows_def slice_indices_def)

lemma slice_rows_full [simp]: "slice_rows xs (Some 0) (Some (int (length xs))) = xs"
  by (simp add: slice_rows_def slice_indices_def)

lemma getslice_array_all [simp]:
  "getslice_array arr (Some 0) None = arr" "getslice_array arr None None = arr"
  "getslice_array arr (Some 0) (Some (int (length (rows arr)))) = arr"
  by (simp_all add: getslice_array_def)

lemma getslice_array_tail [simp]: "tail (getslice_array arr a b) = tail arr"
  by (simp add: getslice_array_def)

lemma broadcast_rows_same: "length src = k \<Longrightarrow> broadcast_rows k src = Inr src"
  by (simp add: broadcast_rows_def)

lemma set_slice_fits:
  assumes "tail src = tail dst" "e + length (rows src) \<le> length (rows dst)"
  shows "set_slice dst (Some (int e)) (Some (int e + int (length (rows src)))) src =
           Inr (dst\<lparr>rows := take e (rows dst) @ rows src @ drop (e + length (rows src)) (rows dst)\<rparr>)"
  using assms by (simp add: set_slice_def slice_indices_def broadcast_rows_def min_absorb1)

lemma set_slice_overflow:
  assumes "tail src = tail dst" "e \<le> length (rows dst)" "length (rows dst) < e + length (rows src)"
    "length (rows src) \<noteq> 1"
  shows "set_slice dst (Some (int e)) (Some (int e + int (length (rows src)))) src = Inl ValueError"
  using assms by (auto simp add: set_slice_def slice_indices_def broadcast_rows_def Let_def)

lemma append_fits:
  assumes d1: "data (audios st self) = Some d1" and d2: "data (audios st as2) = Some d2"
    and t: "tail (arrays st d2) = tail (arrays st d1)"
    and cap: "endindex (audios st self) + length (rows (arrays st d2)) \<le> length (rows (arrays st d1))"
  shows "AudioData_append st self as2 =
          (Inr (),
           st\<lparr>arrays := (arrays st)
                 (d1 := (arrays st d1)
                    \<lparr>rows := take (endindex (audios st self)) (rows (arrays st d1))
                             @ rows (arrays st d2)
                             @ drop (endindex (audios st self) + length (rows (arrays st d2)))
                                 (rows (arrays st d1))\<rparr>),
              audios := (audios st)
                 (self := (audios st self)
                    \<lparr>endindex := endindex (audios st self) + length (rows (arrays st d2))\<rparr>)\<rparr>)"
proof -
  let ?e = "endindex (audios st self)"
  let ?m = "length (rows (arrays st d2))"
  have s: "set_slice (arrays st d1) (Some (int ?e)) (Some (int ?e + int ?m)) (arrays st d2)
           = Inr ((arrays st d1)\<lparr>rows := take ?e (rows (arrays st d1)) @ rows (arrays st d2)
                                       @ drop (?e + ?m) (rows (arrays st d1))\<rparr>)"
    using set_slice_fits [of "arrays st d2" "arrays st d1" ?e] t cap by simp
  show ?thesis
    unfolding AudioData_append_def
    using d1 d2 cap by (auto simp add: s Let_def AudioData_len_def)
qed


lemma append_failure_atomic:
  "fst (AudioData_append st self as2) = Inl e \<Longrightarrow> snd (AudioData_append st self as2) = st"
  by (auto simp: AudioData_append_def Let_def split: option.splits sum.splits)

lemma append_overflow:
  assumes d1: "data (audios st self) = Some d1" and d2: "data (audios st as2) = Some d2"
    and t: "tail (arrays st d2) = tail (arrays st d1)"
    and inv: "endindex (audios st self) \<le> length (rows (arrays st d1))"
    and one: "length (rows (arrays st d2)) \<noteq> 1"
    and over: "length (rows (arrays st d1)) < endindex (audios st self) + length (rows (arrays st d2))"
  shows "AudioData_append st self as2 = (Inl ValueError, st)"
  unfolding AudioData_append_def
  using d1 d2 set_slice_overflow [of "arrays st d2" "arrays st d1" "endindex (audios st self)"] t inv one over
  by (simp add: AudioData_len_def)

text \<open>
  Claim C2, amended. When both buffers have an array, with rows of the same shape, and
  \<open>self\<close> has room for all rows of the other array, \<open>append\<close> copies every row of that
  array, \<open>len(other)\<close> of them whatever \<open>other.endindex\<close> is, into the rows of
  \<open>self.data\<close> from \<open>self.endindex\<close> on, advances \<open>self.endindex\<close> by
  \<open>len(other)\<close>, and changes nothing else. For a buffer that is filled to its
  capacity these rows are its valid samples.
\<close>

theorem append_copies_all_rows:
  assumes "data (audios st self) = Some d1" and "data (audios st as2) = Some d2"
    and "tail (arrays st d2) = tail (arrays st d1)"
    and "endindex (audios st self) + AudioData_len st as2 \<le> AudioData_len st self"
  shows "AudioData_append st self as2 =
          (Inr (),
           st\<lparr>arrays := (arrays st)
                 (d1 := (arrays st d1)
                    \<lparr>rows := take (endindex (audios st self)) (rows (arrays st d1))
                             @ rows (arrays st d2)
                             @ drop (endindex (audios st self) + AudioData_len st as2)
                                 (rows (arrays st d1))\<rparr>),
              audios := (audios st)
                 (self := (audios st self)
                    \<lparr>endindex := endindex (audios st self) + AudioData_len st as2\<rparr>)\<rparr>)"
  using append_fits [of st self d1 as2 d2] assms by (simp add: AudioData_len_def)

theorem append_copies_all_rows_witness:
  "data (audios buf_store 0) = Some 0 \<and> data (audios buf_store 1) = Some 1 \<and>
   tail (arrays buf_store 1) = tail (arrays buf_store 0) \<and>
   endindex (audios buf_store 0) + AudioData_len buf_store 1 \<le> AudioData_len buf_store 0 \<and>
   fst (AudioData_append buf_store 0 1) = Inr () \<and>
   rows (arrays (snd (AudioData_append buf_store 0 1)) 0) = [[1], [2], [7], [0], [0]] \<and>
   endindex (audios (snd (AudioData_append buf_store 0 1)) 0) = 5"
proof -
  have h1: "data (audios buf_store 0) = Some 0" by (simp add: buf_store_def)
  have h2: "data (audios buf_store 1) = Some 1" by (simp add: buf_store_def)
  have h3: "tail (arrays buf_store 1) = tail (arrays buf_store 0)" by (simp add: buf_store_def)
  have h4: "endindex (audios buf_store 0) + AudioData_len buf_store 1 \<le> AudioData_len buf_store 0"
    by (simp add: buf_store_def AudioData_len_def)
  show ?thesis
    unfolding append_copies_all_rows [OF h1 h2 h3 h4]
    by (simp add: buf_store_def AudioData_len_def)
qed

text \<open>
  Buffer 1 holds one valid row out of three. Appending it to buffer 0 copies the three
  rows and advances \<open>endindex\<close> by three.
\<close>

theorem append_copies_beyond_endindex:
  "endindex (audios buf_store 1) = 1 \<and>
   fst (AudioData_append buf_store 0 1) = Inr () \<and>
   rows (arrays (snd (AudioData_append buf_store 0 1)) 0) = [[1], [2], [7], [0], [0]] \<and>
   endindex (audios (snd (AudioData_append buf_store 0 1)) 0) = endindex (audios buf_store 0) + 3"
  by (simp add: buf_store_def AudioData_append_def AudioData_len_def set_slice_def slice_indices_def
        clip_index_def getslice_array_def slice_rows_def broadcast_rows_def Let_def)

text \<open>
  Claim C7, amended. For buffers with arrays of the same row shape, \<open>self.endindex\<close>
  within the capacity and \<open>len(other)\<close> different from one, \<open>append\<close> raises
  (numpy's \<open>ValueError\<close> for mismatched shapes) exactly when
  \<open>self.endindex + len(other)\<close> exceeds the capacity, and then the store is unchanged.
\<close>

theorem append_capacity_error:
  assumes "data (audios st self) = Some d1" and "data (audios st as2) = Some d2"
    and "tail (arrays st d2) = tail (arrays st d1)"
    and "endindex (audios st self) \<le> AudioData_len st self"
    and "AudioData_len st as2 \<noteq> 1"
  shows "(fst (AudioData_append st self as2) = Inl ValueError
            \<longleftrightarrow> AudioData_len st self < endindex (audios st self) + AudioData_len st as2) \<and>
         (AudioData_len st self < endindex (audios st self) + AudioData_len st as2
            \<longrightarrow> AudioData_append st self as2 = (Inl ValueError, st)) \<and>
         (endindex (audios st self) + AudioData_len st as2 \<le> AudioData_len st self
            \<longrightarrow> fst (AudioData_append st self as2) = Inr ())"
proof -
  have a: "AudioData_append st self as2 = (Inl ValueError, st)"
    if "AudioData_len st self < endindex (audios st self) + AudioData_len st as2"
    using append_overflow [of st self d1 as2 d2] assms that by (simp add: AudioData_len_def)
  have b: "fst (AudioData_append st self as2) = Inr ()"
    if "endindex (audios st self) + AudioData_len st as2 \<le> AudioData_len st self"
    using append_fits [of st self d1 as2 d2] assms that by (simp add: AudioData_len_def)
  show ?thesis using a b by (cases "AudioData_len st self < endindex (audios st self) + AudioData_len st as2") auto
qed

theorem append_capacity_error_witness:
  "data (audios buf_store 3) = Some 3 \<and> data (audios buf_store 1) = Some 1 \<and>
   tail (arrays buf_store 1) = tail (arrays buf_store 3) \<and>
   endindex (audios buf_store 3) \<le> AudioData_len buf_store 3 \<and>
   AudioData_len buf_store 1 \<noteq> 1 \<and>
   AudioData_len buf_store 3 < endindex (audios buf_store 3) + AudioData_len buf_store 1 \<and>
   AudioData_append buf_store 3 1 = (Inl ValueError, buf_store)"
proof -
  have h1: "data (audios buf_store 3) = Some 3" by (simp add: buf_store_def)
  have h2: "data (audios buf_store 1) = Some 1" by (simp add: buf_store_def)
  have h3: "tail (arrays buf_store 1) = tail (arrays buf_store 3)" by (simp add: buf_store_def)
  have h4: "endindex (audios buf_store 3) \<le> AudioData_len buf_store 3"
    by (simp add: buf_store_def AudioData_len_def)
  have h5: "AudioData_len buf_store 1 \<noteq> 1" by (simp add: buf_store_def AudioData_len_def)
  have h6: "AudioData_len buf_store 3 < endindex (audios buf_store 3) + AudioData_len buf_store 1"
    by (simp add: buf_store_def AudioData_len_def)
  show ?thesis
    using h1 h2 h3 h4 h5 h6 append_capacity_error [OF h1 h2 h3 h4 h5] by blast
qed

text \<open>
  A single row is broadcast to whatever is left of the destination. Buffer 3 is full;
  appending the one-row buffer 2 raises nothing, writes nothing, and still advances
  \<open>endindex\<close>, which then exceeds the capacity.
\<close>

theorem append_one_row_truncated:
  "AudioData_len buf_store 3 < endindex (audios buf_store 3) + AudioData_len buf_store 2 \<and>
   fst (AudioData_append buf_store 3 2) = Inr () \<and>
   rows (arrays (snd (AudioData_append buf_store 3 2)) 3) = rows (arrays buf_store 3) \<and>
   endindex (audios (snd (AudioData_append buf_store 3 2)) 3) = 3 \<and>
   AudioData_len (snd (AudioData_append buf_store 3 2)) 3 = 2"
  by (simp add: buf_store_def AudioData_append_def AudioData_len_def set_slice_def slice_indices_def
        clip_index_def getslice_array_def slice_rows_def broadcast_rows_def Let_def)

text \<open>
  Claim C6. \<open>mix\<close>, with the test \<open>audioDataA.endindex == audioDataA.endindex\<close>,
  and the variant with \<open>audioDataA.endindex == audioDataB.endindex\<close> return the same
  result and the same store on every input: the third test is reached only when neither
  length exceeds the other, and then both tests hold.
\<close>

theorem mix_equals_intended:
  "mix st audioDataA audioDataB m = mix_intended st audioDataA audioDataB m"
  by (simp add: mix_def mix_intended_def split: prod.splits sum.splits)

lemma imul_shape [simp]:
  "tail (imul arr x) = tail arr" "length (rows (imul arr x)) = length (rows arr)"
  by (simp_all add: imul_def)

lemma zeros_nat: "zeros (int n) t = Inr \<lparr>tail = t, rows = replicate n (replicate (prod_list t) 0)\<rparr>"
  by (simp add: zeros_def)

lemma set_slice_whole:
  assumes "tail src = tail dst" "length (rows src) = length (rows dst)"
  shows "set_slice dst (Some 0) (Some (int (length (rows src)))) src = Inr (dst\<lparr>rows := rows src\<rparr>)"
  using assms by (simp add: set_slice_def slice_indices_def broadcast_rows_def)

lemma AudioData_init_copy:
  "AudioData_init st (Some arr) None sr nc =
     (Inr (free_audio st),
      st\<lparr>arrays := (arrays st)(free_array st := \<lparr>tail = tail arr, rows = rows arr\<rparr>),
         free_array := Suc (free_array st),
         audios := (audios st)(free_audio st :=
            \<lparr>filename = None, sampleRate = sr, numChannels = nc, data = Some (free_array st),
             endindex = length (rows arr)\<rparr>),
         free_audio := Suc (free_audio st)\<rparr>)"
proof -
  let ?z = "\<lparr>tail = tail arr, rows = replicate (length (rows arr)) (replicate (prod_list (tail arr)) 0)\<rparr>"
  have c: "set_slice ?z (Some 0) (Some (int (length (rows arr)))) arr = Inr (?z\<lparr>rows := rows arr\<rparr>)"
    by (rule set_slice_whole) simp_all
  show ?thesis
    by (simp add: AudioData_init_def init_data_def init_copy_def zeros_nat c new_array_def new_audio_def)
qed


text \<open>
  Claim C9. Slicing a buffer that has an array over the full range of its rows returns a
  new buffer object with a new array: the addresses are unused before the call, so they
  differ from those of the original, which the call leaves as they are. The new array
  equals the original one, and the new buffer has the sample rate of the original.
\<close>

theorem slice_full_range_copy:
  assumes "data (audios st self) = Some d" and "d < free_array st" and "self < free_audio st"
  shows "fst (getitem st self (SliceIx (BInt 0) (BInt (int (AudioData_len st self)))))
           = Inr (Buffer (free_audio st)) \<and>
         free_audio st \<noteq> self \<and>
         data (audios (snd (getitem st self (SliceIx (BInt 0) (BInt (int (AudioData_len st self))))))
                (free_audio st)) = Some (free_array st) \<and>
         free_array st \<noteq> d \<and>
         arrays (snd (getitem st self (SliceIx (BInt 0) (BInt (int (AudioData_len st self))))))
           (free_array st) = arrays st d \<and>
         sampleRate (audios (snd (getitem st self (SliceIx (BInt 0) (BInt (int (AudioData_len st self))))))
                       (free_audio st)) = sampleRate (audios st self) \<and>
         arrays (snd (getitem st self (SliceIx (BInt 0) (BInt (int (AudioData_len st self)))))) d
           = arrays st d \<and>
         audios (snd (getitem st self (SliceIx (BInt 0) (BInt (int (AudioData_len st self)))))) self
           = audios st self"
  using assms
  by (simp add: getslice_def wrap_buffer_def AudioData_len_def AudioData_init_copy)

theorem slice_full_range_copy_witness:
  "data (audios buf_store 0) = Some 0 \<and> 0 < free_array buf_store \<and> 0 < free_audio buf_store \<and>
   fst (getitem buf_store 0 (SliceIx (BInt 0) (BInt (int (AudioData_len buf_store 0))))) = Inr (Buffer 4) \<and>
   arrays (snd (getitem buf_store 0 (SliceIx (BInt 0) (BInt (int (AudioData_len buf_store 0)))))) 4
     = arrays buf_store 0 \<and>
   sampleRate (audios (snd (getitem buf_store 0 (SliceIx (BInt 0) (BInt (int (AudioData_len buf_store 0)))))) 4)
     = Some 4"
proof -
  have h1: "data (audios buf_store 0) = Some 0" by (simp add: buf_store_def)
  have h2: "0 < free_array buf_store" by (simp add: buf_store_def)
  have h3: "0 < free_audio buf_store" by (simp add: buf_store_def)
  have v: "free_audio buf_store = 4" "free_array buf_store = 4" "sampleRate (audios buf_store 0) = Some 4"
    by (simp_all add: buf_store_def)
  show ?thesis
    using h1 h2 h3 slice_full_range_copy [OF h1 h2 h3] unfolding v by blast
qed

text \<open>The slices \<open>[:]\<close> and \<open>[0:]\<close> are the same full range.\<close>

lemma slice_whole_forms:
  assumes "data (audios st self) = Some d"
  shows "getitem st self (SliceIx BNone BNone) = getitem st self (SliceIx (BInt 0) (BInt (int (AudioData_len st self))))"
    and "getitem st self (SliceIx (BInt 0) BNone) = getitem st self (SliceIx (BInt 0) (BInt (int (AudioData_len st self))))"
  using assms by (simp_all add: getslice_def AudioData_len_def)


lemma iadd_slice_prefix:
  assumes "tail src = tail dst" "length (rows src) = k" "k \<le> length (rows dst)"
  shows "iadd_slice dst None (Some (int k)) src =
           Inr (dst\<lparr>rows := map2 add_frames (take k (rows dst)) (rows src) @ drop k (rows dst)\<rparr>)"
  using assms by (simp add: iadd_slice_def slice_indices_def broadcast_rows_def min_absorb1)

lemma iadd_slice_whole:
  assumes "tail src = tail dst" "length (rows src) = length (rows dst)"
  shows "iadd_slice dst None None src = Inr (dst\<lparr>rows := map2 add_frames (rows dst) (rows src)\<rparr>)"
  using assms by (simp add: iadd_slice_def slice_indices_def broadcast_rows_def)

lemma imul_at_frame [simp]:
  "audios (imul_at st d x) = audios st"
  "free_array (imul_at st d x) = free_array st"
  "free_audio (imul_at st d x) = free_audio st"
  "tail (arrays (imul_at st d x) d') = tail (arrays st d')"
  "length (rows (arrays (imul_at st d x) d')) = length (rows (arrays st d'))"
  "d' \<noteq> d \<Longrightarrow> arrays (imul_at st d x) d' = arrays st d'"
  by (simp_all add: imul_at_def)

lemma mix_scale_ok:
  assumes "data (audios st A) = Some da" "data (audios st B) = Some db"
  shows "mix_scale st A B m = (Inr (), imul_at (imul_at st da m) db (round64 (1 - m)))"
  using assms by (simp add: mix_scale_def)

lemma mix_add_prefix:
  assumes "data (audios st dst) = Some dd" "data (audios st src) = Some ds"
    and "tail (arrays st ds) = tail (arrays st dd)"
    and "length (rows (arrays st ds)) = k" "k \<le> length (rows (arrays st dd))"
  shows "mix_add st dst (Some (int k)) src (Some 0) =
           (Inr (Some dst),
            st\<lparr>arrays := (arrays st)(dd := (arrays st dd)
                 \<lparr>rows := map2 add_frames (take k (rows (arrays st dd))) (rows (arrays st ds))
                          @ drop k (rows (arrays st dd))\<rparr>)\<rparr>)"
  using assms iadd_slice_prefix [of "arrays st ds" "arrays st dd" k]
  by (simp add: mix_add_def iadd_at_def)

lemma mix_add_whole:
  assumes "data (audios st dst) = Some dd" "data (audios st src) = Some ds"
    and "tail (arrays st ds) = tail (arrays st dd)"
    and "length (rows (arrays st ds)) = length (rows (arrays st dd))"
  shows "mix_add st dst None src None =
           (Inr (Some dst),
            st\<lparr>arrays := (arrays st)(dd := (arrays st dd)
                 \<lparr>rows := map2 add_frames (rows (arrays st dd)) (rows (arrays st ds))\<rparr>)\<rparr>)"
  using assms iadd_slice_whole [of "arrays st ds" "arrays st dd"]
  by (simp add: mix_add_def iadd_at_def)

text \<open>
  What \<open>mix\<close> does when the shorter buffer is filled to its capacity: both arrays are
  scaled in place, the rows of the shorter array are added to the first rows of the
  longer one, and the longer buffer is returned. The longer buffer may have spare
  capacity. Nothing is allocated, and no buffer object changes.
\<close>

lemma mix_into_longer:
  assumes a: "data (audios st A) = Some da" and b: "data (audios st B) = Some db"
    and ne: "da \<noteq> db"
    and t: "tail (arrays st da) = tail (arrays st db)"
    and fb: "length (rows (arrays st db)) = endindex (audios st B)"
    and lt: "endindex (audios st B) < endindex (audios st A)"
    and cap: "endindex (audios st A) \<le> length (rows (arrays st da))"
  shows "fst (mix st A B m) = Inr (Some A)"
    and "arrays (snd (mix st A B m)) db = imul (arrays st db) (round64 (1 - m))"
    and "arrays (snd (mix st A B m)) da =
           (imul (arrays st da) m)
             \<lparr>rows := map2 add_frames
                        (take (endindex (audios st B)) (rows (imul (arrays st da) m)))
                        (rows (imul (arrays st db) (round64 (1 - m))))
                      @ drop (endindex (audios st B)) (rows (imul (arrays st da) m))\<rparr>"
    and "\<forall>d. d \<noteq> da \<longrightarrow> d \<noteq> db \<longrightarrow> arrays (snd (mix st A B m)) d = arrays st d"
    and "audios (snd (mix st A B m)) = audios st"
    and "free_array (snd (mix st A B m)) = free_array st"
    and "free_audio (snd (mix st A B m)) = free_audio st"
proof -
  let ?s = "imul_at (imul_at st da m) db (round64 (1 - m))"
  have sc: "mix_scale st A B m = (Inr (), ?s)" using mix_scale_ok [OF a b] .
  have da: "data (audios ?s A) = Some da" and db: "data (audios ?s B) = Some db"
    using a b by simp_all
  have ts: "tail (arrays ?s db) = tail (arrays ?s da)" using t by simp
  have lb: "length (rows (arrays ?s db)) = endindex (audios st B)" using fb by simp
  have k: "endindex (audios st B) \<le> length (rows (arrays ?s da))" using lt cap by simp
  have va: "arrays ?s da = imul (arrays st da) m" and vb: "arrays ?s db = imul (arrays st db) (round64 (1 - m))"
    using ne by (simp_all add: imul_at_def)
  have m: "mix st A B m =
            (Inr (Some A),
             ?s\<lparr>arrays := (arrays ?s)(da := (arrays ?s da)
                 \<lparr>rows := map2 add_frames (take (endindex (audios st B)) (rows (arrays ?s da)))
                                          (rows (arrays ?s db))
                          @ drop (endindex (audios st B)) (rows (arrays ?s da))\<rparr>)\<rparr>)"
    using lt mix_add_prefix [OF da db ts lb k] by (simp add: mix_def sc)
  show "fst (mix st A B m) = Inr (Some A)" by (simp add: m)
  show "arrays (snd (mix st A B m)) db = imul (arrays st db) (round64 (1 - m))"
    using ne by (simp add: m vb)
  show "arrays (snd (mix st A B m)) da =
           (imul (arrays st da) m)
             \<lparr>rows := map2 add_frames
                        (take (endindex (audios st B)) (rows (imul (arrays st da) m)))
                        (rows (imul (arrays st db) (round64 (1 - m))))
                      @ drop (endindex (audios st B)) (rows (imul (arrays st da) m))\<rparr>"
    by (simp add: m va vb)
  show "\<forall>d. d \<noteq> da \<longrightarrow> d \<noteq> db \<longrightarrow> arrays (snd (mix st A B m)) d = arrays st d"
    by (simp add: m imul_at_def)
  show "audios (snd (mix st A B m)) = audios st" by (simp add: m)
  show "free_array (snd (mix st A B m)) = free_array st" by (simp add: m)
  show "free_audio (snd (mix st A B m)) = free_audio st" by (simp add: m)
qed

text \<open>
  For two buffers that are both filled to their capacity, \<open>mix\<close> returns the longer
  one, \<open>A\<close> when the lengths are equal, and every array keeps its shape.
\<close>

lemma mix_full:
  assumes a: "data (audios st A) = Some da" and b: "data (audios st B) = Some db"
    and t: "tail (arrays st da) = tail (arrays st db)"
    and fa: "length (rows (arrays st da)) = endindex (audios st A)"
    and fb: "length (rows (arrays st db)) = endindex (audios st B)"
  shows "fst (mix st A B m) = Inr (Some (if endindex (audios st B) \<le> endindex (audios st A) then A else B))
         \<and> audios (snd (mix st A B m)) = audios st
         \<and> free_array (snd (mix st A B m)) = free_array st
         \<and> free_audio (snd (mix st A B m)) = free_audio st
         \<and> (\<forall>d. shape (arrays (snd (mix st A B m)) d) = shape (arrays st d))
         \<and> (\<forall>d. d \<noteq> da \<longrightarrow> d \<noteq> db \<longrightarrow> arrays (snd (mix st A B m)) d = arrays st d)"
proof -
  let ?s = "imul_at (imul_at st da m) db (round64 (1 - m))"
  have sc: "mix_scale st A B m = (Inr (), ?s)" using mix_scale_ok [OF a b] .
  have da: "data (audios ?s A) = Some da" and db: "data (audios ?s B) = Some db"
    using a b by simp_all
  have ts: "tail (arrays ?s db) = tail (arrays ?s da)" "tail (arrays ?s da) = tail (arrays ?s db)"
    using t by simp_all
  have la: "length (rows (arrays ?s da)) = endindex (audios st A)"
    and lb: "length (rows (arrays ?s db)) = endindex (audios st B)"
    using fa fb by simp_all
  consider (gt) "endindex (audios st B) < endindex (audios st A)"
    | (lt) "endindex (audios st A) < endindex (audios st B)"
    | (eq) "endindex (audios st A) = endindex (audios st B)"
    by linarith
  then show ?thesis
  proof cases
    case gt
    have k: "endindex (audios st B) \<le> length (rows (arrays ?s da))" using gt la by simp
    show ?thesis
      using gt fa fb mix_add_prefix [OF da db ts(1) lb k]
      by (simp add: mix_def sc shape_def)
  next
    case lt
    have k: "endindex (audios st A) \<le> length (rows (arrays ?s db))" using lt lb by simp
    show ?thesis
      using lt fa fb mix_add_prefix [OF db da ts(2) la k]
      by (simp add: mix_def sc shape_def)
  next
    case eq
    have l: "length (rows (arrays ?s db)) = length (rows (arrays ?s da))" using eq la lb by simp
    show ?thesis
      using eq fa fb mix_add_whole [OF da db ts(1) l]
      by (simp add: mix_def sc shape_def)
  qed
qed

lemmas mix_eval =
  mix_def mix_scale_def mix_add_def iadd_at_def iadd_slice_def imul_at_def imul_def
  slice_indices_def clip_index_def getslice_array_def slice_rows_def broadcast_rows_def
  shape_def AudioData_len_def Let_def scale_sample_def py_int_def add_frames_def

text \<open>
  Claim C5. Buffers 0 and 1 have the same sample rate and channel count; buffer 0 holds
  two rows of five and buffer 1 one row of three. The claim has \<open>mix\<close> return buffer 0.
  The code scales both arrays and then evaluates
  \<open>audioDataA.data[:audioDataB.endindex] += audioDataB.data[0:]\<close>: the destination is
  the one valid row of buffer 1's length, the source all three rows of its array. numpy
  raises \<open>ValueError\<close>, nothing is returned, and both arrays stay scaled.
\<close>

theorem mix_partial_buffers_raises:
  "sampleRate (audios buf_store 0) = sampleRate (audios buf_store 1) \<and>
   shape (arrays buf_store 0) ! 1 = shape (arrays buf_store 1) ! 1 \<and>
   endindex (audios buf_store 1) < endindex (audios buf_store 0) \<and>
   endindex (audios buf_store 0) \<le> AudioData_len buf_store 0 \<and>
   endindex (audios buf_store 1) \<le> AudioData_len buf_store 1 \<and>
   fst (mix buf_store 0 1 (1/2)) = Inl ValueError \<and>
   rows (arrays buf_store 0) = [[1], [2], [0], [0], [0]] \<and>
   rows (arrays (snd (mix buf_store 0 1 (1/2))) 0) = [[0], [1], [0], [0], [0]] \<and>
   rows (arrays buf_store 1) = [[7], [0], [0]] \<and>
   rows (arrays (snd (mix buf_store 0 1 (1/2))) 1) = [[3], [0], [0]]"
  by (simp add: buf_store_def mix_eval round64_eval)

text \<open>
  With the roles exchanged so that the shorter buffer is full, the same call works:
  buffer 2 is one full row, buffer 0 holds two rows of five. And the samples after
  mixing the full buffers 2 and 3 in equal parts.
\<close>

lemma mix_values:
  "fst (mix buf_store 0 2 (1/2)) = Inr (Some 0)"
  "rows (arrays (snd (mix buf_store 0 2 (1/2))) 0) = [[4], [1], [0], [0], [0]]"
  "rows (arrays (snd (mix buf_store 2 3 (1/2))) 3) = [[6], [3]]"
  "rows (arrays (snd (mix buf_store 2 3 (1/2))) 2) = [[4]]"
  by (simp_all add: buf_store_def mix_eval round64_eval)

section \<open>Properties of the assembly\<close>

lemma piece_of_bounds:
  "piece_bounds sr q = Inr (i, j) \<Longrightarrow> piece arr sr q = slice_rows (rows arr) i j"
  by (simp add: piece_def)

lemma converts_bounds:
  "converts sr q \<Longrightarrow> \<exists>i j. piece_bounds sr q = Inr (i, j)"
  by (cases "piece_bounds sr q") (auto simp: converts_def)

lemma getitem_quantum:
  assumes "data (audios st src) = Some d" "sampleRate (audios st src) = sr" "converts sr q"
  shows "getitem st src (QuantumIx q) =
     (Inr (Buffer (free_audio st)),
      st\<lparr>arrays := (arrays st)(free_array st := \<lparr>tail = tail (arrays st d), rows = piece (arrays st d) sr q\<rparr>),
         free_array := Suc (free_array st),
         audios := (audios st)(free_audio st :=
            \<lparr>filename = None, sampleRate = sr, numChannels = None, data = Some (free_array st),
             endindex = length (piece (arrays st d) sr q)\<rparr>),
         free_audio := Suc (free_audio st)\<rparr>)"
proof -
  obtain i j where b: "piece_bounds sr q = Inr (i, j)" using converts_bounds [OF assms(3)] by blast
  obtain stop where s: "add_num (tstart q) (tduration q) = Inr stop"
    and sb: "slice_bounds sr (bound_of (tstart q)) (bound_of stop) = Inr (i, j)"
    using b by (auto simp: piece_bounds_def split: sum.splits)
  show ?thesis
    using assms(1,2) sb
    by (simp add: s getslice_def wrap_buffer_def AudioData_init_copy piece_of_bounds [OF b]
          getslice_array_def)
qed

lemma sum_durations_eq:
  "\<forall>q \<in> set segs. converts sr q \<Longrightarrow>
   sum_durations sr acc segs = Inr (acc + sum_list (map (counted sr) segs))"
proof (induction segs arbitrary: acc)
  case Nil
  then show ?case by simp
next
  case (Cons q segs)
  then obtain n where n: "to_sample sr (tduration q) = Inr n"
    by (cases "to_sample sr (tduration q)") (auto simp: converts_def)
  show ?case using Cons by (simp add: n counted_def)
qed

lemma AudioData_init_shape:
  assumes "0 \<le> n"
  shows "AudioData_init st None (Some (n, t)) sr nc =
     (Inr (free_audio st),
      st\<lparr>arrays := (arrays st)(free_array st := \<lparr>tail = t, rows = replicate (nat n) (replicate (prod_list t) 0)\<rparr>),
         free_array := Suc (free_array st),
         audios := (audios st)(free_audio st :=
            \<lparr>filename = None, sampleRate = sr, numChannels = nc, data = Some (free_array st),
             endindex = 0\<rparr>),
         free_audio := Suc (free_audio st)\<rparr>)"
  using assms
  by (simp add: AudioData_init_def init_data_def init_copy_def zeros_def new_array_def new_audio_def)


lemma splice_twice:
  assumes "e + length p + k \<le> length xs"
  shows "take (e + length p) (take e xs @ p @ drop (e + length p) xs) @ ps
           @ drop (e + length p + k) (take e xs @ p @ drop (e + length p) xs)
         = take e xs @ (p @ ps) @ drop (e + (length p + k)) xs"
proof -
  have e: "e \<le> length xs" using assms by simp
  have 1: "take (e + length p) (take e xs @ p @ drop (e + length p) xs) = take e xs @ p"
    using e by (simp add: min_absorb2)
  have 2: "drop (e + length p + k) (take e xs @ p @ drop (e + length p) xs) = drop (e + (length p + k)) xs"
    using e by (simp add: min_absorb2 add.assoc add.commute add.left_commute)
  show ?thesis by (simp only: 1 2 append_assoc)
qed

lemma append_pieces_result:
  assumes src: "data (audios st src) = Some d" "sampleRate (audios st src) = sr"
    and new: "data (audios st n) = Some dn"
    and ne: "d \<noteq> dn" "src \<noteq> n"
    and alloc: "d < free_array st" "dn < free_array st" "src < free_audio st" "n < free_audio st"
    and t: "tail (arrays st dn) = tail (arrays st d)"
    and cap: "endindex (audios st n) + sum_list (map (\<lambda>q. length (piece (arrays st d) sr q)) segs)
                \<le> length (rows (arrays st dn))"
    and conv: "\<forall>q \<in> set segs. converts sr q"
  shows "fst (append_pieces st n src segs) = Inr () \<and>
         endindex (audios (snd (append_pieces st n src segs)) n)
           = endindex (audios st n) + sum_list (map (\<lambda>q. length (piece (arrays st d) sr q)) segs) \<and>
         rows (arrays (snd (append_pieces st n src segs)) dn)
           = take (endindex (audios st n)) (rows (arrays st dn))
             @ concat (map (piece (arrays st d) sr) segs)
             @ drop (endindex (audios st n) + sum_list (map (\<lambda>q. length (piece (arrays st d) sr q)) segs))
                 (rows (arrays st dn)) \<and>
         tail (arrays (snd (append_pieces st n src segs)) dn) = tail (arrays st dn) \<and>
         data (audios (snd (append_pieces st n src segs)) n) = Some dn \<and>
         sampleRate (audios (snd (append_pieces st n src segs)) n) = sampleRate (audios st n) \<and>
         numChannels (audios (snd (append_pieces st n src segs)) n) = numChannels (audios st n) \<and>
         arrays (snd (append_pieces st n src segs)) d = arrays st d \<and>
         audios (snd (append_pieces st n src segs)) src = audios st src"
  using assms
proof (induction segs arbitrary: st)
  case Nil
  then show ?case by simp
next
  case (Cons q segs)
  let ?e = "endindex (audios st n)"
  let ?p = "piece (arrays st d) sr q"
  let ?k = "sum_list (map (\<lambda>q. length (piece (arrays st d) sr q)) segs)"
  let ?xs = "rows (arrays st dn)"
  let ?ps = "concat (map (piece (arrays st d) sr) segs)"
  define ap where "ap = free_audio st"
  define dp where "dp = free_array st"
  define st1 where "st1 = st\<lparr>arrays := (arrays st)(free_array st := \<lparr>tail = tail (arrays st d), rows = ?p\<rparr>),
         free_array := Suc (free_array st),
         audios := (audios st)(free_audio st :=
            \<lparr>filename = None, sampleRate = sr, numChannels = None, data = Some (free_array st),
             endindex = length ?p\<rparr>),
         free_audio := Suc (free_audio st)\<rparr>"
  define st2 where "st2 = st1\<lparr>arrays := (arrays st1)
                 (dn := (arrays st1 dn)
                    \<lparr>rows := take (endindex (audios st1 n)) (rows (arrays st1 dn))
                             @ rows (arrays st1 dp)
                             @ drop (endindex (audios st1 n) + length (rows (arrays st1 dp)))
                                 (rows (arrays st1 dn))\<rparr>),
              audios := (audios st1)
                 (n := (audios st1 n)
                    \<lparr>endindex := endindex (audios st1 n) + length (rows (arrays st1 dp))\<rparr>)\<rparr>"
  have g: "getitem st src (QuantumIx q) = (Inr (Buffer ap), st1)"
    unfolding st1_def ap_def using getitem_quantum [OF Cons.prems(1,2)] Cons.prems(12) by simp
  have capq: "?e + length ?p + ?k \<le> length ?xs" using Cons.prems(11) by simp
  have f1: "audios st1 n = audios st n" "arrays st1 dn = arrays st dn"
    "data (audios st1 ap) = Some dp" "arrays st1 dp = \<lparr>tail = tail (arrays st d), rows = ?p\<rparr>"
    "arrays st1 d = arrays st d" "audios st1 src = audios st src"
    "free_array st1 = Suc (free_array st)" "free_audio st1 = Suc (free_audio st)"
    unfolding st1_def ap_def dp_def using Cons.prems by simp_all
  have a: "AudioData_append st1 n ap = (Inr (), st2)"
    unfolding st2_def
  proof (rule append_fits)
    show "data (audios st1 n) = Some dn" unfolding f1 using Cons.prems by simp
    show "data (audios st1 ap) = Some dp" using f1 by simp
    show "tail (arrays st1 dp) = tail (arrays st1 dn)" unfolding f1 using Cons.prems by simp
    show "endindex (audios st1 n) + length (rows (arrays st1 dp)) \<le> length (rows (arrays st1 dn))"
      unfolding f1 using capq by simp
  qed
  have step: "append_pieces st n src (q # segs) = append_pieces st2 n src segs"
    by (simp only: append_pieces.simps g a prod.case sum.case item.case)
  have f2: "arrays st2 d = arrays st d" "audios st2 src = audios st src"
    "audios st2 n = (audios st n)\<lparr>endindex := ?e + length ?p\<rparr>"
    "arrays st2 dn = (arrays st dn)\<lparr>rows := take ?e ?xs @ ?p @ drop (?e + length ?p) ?xs\<rparr>"
    "free_array st2 = Suc (free_array st)" "free_audio st2 = Suc (free_audio st)"
    unfolding st2_def using f1 Cons.prems by simp_all
  have IH: "fst (append_pieces st2 n src segs) = Inr () \<and>
         endindex (audios (snd (append_pieces st2 n src segs)) n)
           = endindex (audios st2 n) + sum_list (map (\<lambda>q. length (piece (arrays st2 d) sr q)) segs) \<and>
         rows (arrays (snd (append_pieces st2 n src segs)) dn)
           = take (endindex (audios st2 n)) (rows (arrays st2 dn))
             @ concat (map (piece (arrays st2 d) sr) segs)
             @ drop (endindex (audios st2 n) + sum_list (map (\<lambda>q. length (piece (arrays st2 d) sr q)) segs))
                 (rows (arrays st2 dn)) \<and>
         tail (arrays (snd (append_pieces st2 n src segs)) dn) = tail (arrays st2 dn) \<and>
         data (audios (snd (append_pieces st2 n src segs)) n) = Some dn \<and>
         sampleRate (audios (snd (append_pieces st2 n src segs)) n) = sampleRate (audios st2 n) \<and>
         numChannels (audios (snd (append_pieces st2 n src segs)) n) = numChannels (audios st2 n) \<and>
         arrays (snd (append_pieces st2 n src segs)) d = arrays st2 d \<and>
         audios (snd (append_pieces st2 n src segs)) src = audios st2 src"
  proof (rule Cons.IH)
    show "data (audios st2 src) = Some d" "sampleRate (audios st2 src) = sr"
      unfolding f2 using Cons.prems by simp_all
    show "data (audios st2 n) = Some dn" unfolding f2 using Cons.prems by simp
    show "d \<noteq> dn" "src \<noteq> n" using Cons.prems by simp_all
    show "d < free_array st2" "dn < free_array st2" "src < free_audio st2" "n < free_audio st2"
      unfolding f2 using Cons.prems by simp_all
    show "tail (arrays st2 dn) = tail (arrays st2 d)" unfolding f2 using Cons.prems by simp
    show "endindex (audios st2 n) + sum_list (map (\<lambda>q. length (piece (arrays st2 d) sr q)) segs)
            \<le> length (rows (arrays st2 dn))"
      unfolding f2 using capq by simp
    show "\<forall>q \<in> set segs. converts sr q" using Cons.prems(12) by simp
  qed
  have sp: "take (?e + length ?p) (take ?e ?xs @ ?p @ drop (?e + length ?p) ?xs) @ ?ps
              @ drop (?e + length ?p + ?k) (take ?e ?xs @ ?p @ drop (?e + length ?p) ?xs)
            = take ?e ?xs @ (?p @ ?ps) @ drop (?e + (length ?p + ?k)) ?xs"
    using splice_twice [OF capq] .
  from IH have r: "fst (append_pieces st2 n src segs) = Inr ()"
    "endindex (audios (snd (append_pieces st2 n src segs)) n) = ?e + length ?p + ?k"
    "rows (arrays (snd (append_pieces st2 n src segs)) dn)
       = take (?e + length ?p) (take ?e ?xs @ ?p @ drop (?e + length ?p) ?xs) @ ?ps
          @ drop (?e + length ?p + ?k) (take ?e ?xs @ ?p @ drop (?e + length ?p) ?xs)"
    "tail (arrays (snd (append_pieces st2 n src segs)) dn) = tail (arrays st dn)"
    "data (audios (snd (append_pieces st2 n src segs)) n) = Some dn"
    "sampleRate (audios (snd (append_pieces st2 n src segs)) n) = sampleRate (audios st n)"
    "numChannels (audios (snd (append_pieces st2 n src segs)) n) = numChannels (audios st n)"
    "arrays (snd (append_pieces st2 n src segs)) d = arrays st d"
    "audios (snd (append_pieces st2 n src segs)) src = audios st src"
    unfolding f2 by simp_all
  show ?case
    unfolding step r sp by (simp add: add.assoc)
qed


lemma newshape_tail:
  assumes "length (tail arr) \<le> 1"
  shows "(if length (shape arr) > 1 then ([shape arr ! 1], shape arr ! 1) else ([], 1))
           = (tail arr, if tail arr = [] then 1 else hd (tail arr))"
proof (cases "tail arr")
  case Nil
  then show ?thesis by (simp add: shape_def)
next
  case (Cons c cs)
  then have "cs = []" using assms by simp
  then show ?thesis using Cons by (simp add: shape_def)
qed

lemma getpieces_result:
  assumes src: "data (audios st src) = Some d" "sampleRate (audios st src) = sr"
    and dim: "length (tail (arrays st d)) \<le> 1"
    and alloc: "d < free_array st" "src < free_audio st"
    and conv: "\<forall>q \<in> set segs. converts sr q"
    and cap: "int (sum_list (map (\<lambda>q. length (piece (arrays st d) sr q)) segs))
                \<le> sum_list (map (counted sr) segs) + 100000"
  shows "fst (getpieces st src segs) = Inr (free_audio st) \<and>
         endindex (audios (snd (getpieces st src segs)) (free_audio st))
           = sum_list (map (\<lambda>q. length (piece (arrays st d) sr q)) segs) \<and>
         data (audios (snd (getpieces st src segs)) (free_audio st)) = Some (free_array st) \<and>
         take (sum_list (map (\<lambda>q. length (piece (arrays st d) sr q)) segs))
              (rows (arrays (snd (getpieces st src segs)) (free_array st)))
           = concat (map (piece (arrays st d) sr) segs) \<and>
         length (rows (arrays (snd (getpieces st src segs)) (free_array st)))
           = nat (sum_list (map (counted sr) segs) + 100000) \<and>
         sampleRate (audios (snd (getpieces st src segs)) (free_audio st)) = sr"
proof -
  let ?k = "sum_list (map (\<lambda>q. length (piece (arrays st d) sr q)) segs)"
  let ?ps = "concat (map (piece (arrays st d) sr) segs)"
  define dur where "dur = 0 + sum_list (map (counted sr) segs) + 100000"
  define nc where "nc = (if tail (arrays st d) = [] then 1 else hd (tail (arrays st d)))"
  define z where "z = replicate (nat dur) (replicate (prod_list (tail (arrays st d))) (0::sample))"
  define n where "n = free_audio st"
  define dn where "dn = free_array st"
  define st1 where "st1 = st\<lparr>arrays := (arrays st)(free_array st := \<lparr>tail = tail (arrays st d), rows = z\<rparr>),
         free_array := Suc (free_array st),
         audios := (audios st)(free_audio st :=
            \<lparr>filename = None, sampleRate = sr, numChannels = Some nc, data = Some (free_array st),
             endindex = 0\<rparr>),
         free_audio := Suc (free_audio st)\<rparr>"
  have dur0: "0 \<le> dur" and kd: "?k \<le> nat dur" using cap unfolding dur_def by linarith+
  have i: "AudioData_init st None (Some (dur, tail (arrays st d))) sr (Some nc) = (Inr n, st1)"
    unfolding st1_def z_def n_def using AudioData_init_shape [OF dur0] .
  have f1: "data (audios st1 src) = Some d" "sampleRate (audios st1 src) = sr"
    "data (audios st1 n) = Some dn" "d \<noteq> dn" "src \<noteq> n"
    "d < free_array st1" "dn < free_array st1" "src < free_audio st1" "n < free_audio st1"
    "tail (arrays st1 dn) = tail (arrays st1 d)"
    "arrays st1 d = arrays st d" "endindex (audios st1 n) = 0" "rows (arrays st1 dn) = z"
    "sampleRate (audios st1 n) = sr"
    unfolding st1_def n_def dn_def using src alloc by simp_all
  have lz: "length z = nat dur" unfolding z_def by simp
  have c1: "endindex (audios st1 n) + sum_list (map (\<lambda>q. length (piece (arrays st1 d) sr q)) segs)
              \<le> length (rows (arrays st1 dn))"
    unfolding f1 lz using kd by simp
  note ap = append_pieces_result [OF f1(1) f1(2) f1(3) f1(4) f1(5) f1(6) f1(7) f1(8) f1(9) f1(10) c1 conv]
  have g: "getpieces st src segs = (Inr n, snd (append_pieces st1 n src segs))"
  proof -
    have "getpieces st src segs =
            (case append_pieces st1 n src segs of
               (Inl e, st2) \<Rightarrow> (Inl e, st2)
             | (Inr u, st2) \<Rightarrow> (Inr n, st2))"
      unfolding getpieces_def src sum_durations_eq [OF conv] sum.case option.case newshape_tail [OF dim]
      by (simp only: Let_def prod.case sum.case option.case dur_def [symmetric] nc_def [symmetric] i)
    then show ?thesis using ap by (cases "append_pieces st1 n src segs") auto
  qed
  have lps: "length ?ps = ?k" by (simp add: length_concat comp_def)
  have rows: "rows (arrays (snd (append_pieces st1 n src segs)) dn) = ?ps @ drop ?k z"
    using ap unfolding f1 by simp
  have dur': "sum_list (map (counted sr) segs) + 100000 = dur" unfolding dur_def by simp
  show ?thesis
    unfolding g n_def [symmetric] dn_def [symmetric] dur'
    using ap rows lps kd lz unfolding f1 by simp
qed


text \<open>
  What the slice of an object is. With int start and int duration the bounds are row
  numbers, whatever the sample rate. With a float start the bounds are the truncated
  float products of the start, and of the float sum of start and duration, with the
  sample rate. An int start with a float duration gives a float stop next to an int
  start, which is not converted and which numpy refuses.
\<close>

lemma piece_bounds_int:
  "piece_bounds sr \<lparr>tstart = IntN a, tduration = IntN b\<rparr> = Inr (Some a, Some (a + b))"
  by (simp add: piece_bounds_def bound_of_def)

lemma piece_bounds_float:
  "piece_bounds sr \<lparr>tstart = FloatN x, tduration = FloatN y\<rparr> =
     (case to_sample sr (FloatN x) of
        Inl e \<Rightarrow> Inl e
      | Inr i \<Rightarrow>
          (case to_sample sr (FloatN (round64 (x + y))) of
             Inl e \<Rightarrow> Inl e
           | Inr j \<Rightarrow> Inr (Some i, Some j)))"
  by (simp add: piece_bounds_def bound_of_def split: sum.splits)

lemma piece_bounds_int_float:
  "isl (piece_bounds sr \<lparr>tstart = IntN a, tduration = FloatN y\<rparr>)"
  by (simp add: piece_bounds_def bound_of_def split: sum.splits)

lemma to_sample_float:
  assumes "\<not> overflows (round64 (of_int r))" "\<not> overflows v"
    and "\<not> overflows (round64 (v * round64 (of_int r)))"
  shows "to_sample (Some r) (FloatN v) = Inr (py_int (round64 (v * round64 (of_int r))))"
  using assms by (simp add: to_sample_def to_float_def)

text \<open>
  Claim C1, amended. Let the source buffer have an array of one or two dimensions, let
  every object of the list convert at the sample rate of the source (neither its slice
  bounds nor its count raise), and let the selected rows fit the capacity that
  \<open>getpieces\<close> allocates, which is the sum of \<open>int(q.duration * sampleRate)\<close> plus 100000.
  Then \<open>getpieces\<close> returns a new buffer whose \<open>endindex\<close> is the sum, over the list,
  of the number of rows of \<open>source[q]\<close>, the slice with the bounds of
  \<open>piece_bounds\<close> clipped to the source; its first \<open>endindex\<close> rows are these
  slices in the order of the list.
\<close>

theorem getpieces_length:
  assumes "data (audios st src) = Some d" and "sampleRate (audios st src) = sr"
    and "length (tail (arrays st d)) \<le> 1"
    and "d < free_array st" and "src < free_audio st"
    and "\<forall>q \<in> set segs. converts sr q"
    and "int (sum_list (map (\<lambda>q. length (piece (arrays st d) sr q)) segs))
           \<le> sum_list (map (counted sr) segs) + 100000"
  shows "fst (getpieces st src segs) = Inr (free_audio st) \<and>
         endindex (audios (snd (getpieces st src segs)) (free_audio st))
           = sum_list (map (\<lambda>q. length (piece (arrays st d) sr q)) segs) \<and>
         data (audios (snd (getpieces st src segs)) (free_audio st)) = Some (free_array st) \<and>
         take (sum_list (map (\<lambda>q. length (piece (arrays st d) sr q)) segs))
              (rows (arrays (snd (getpieces st src segs)) (free_array st)))
           = concat (map (piece (arrays st d) sr) segs) \<and>
         length (rows (arrays (snd (getpieces st src segs)) (free_array st)))
           = nat (sum_list (map (counted sr) segs) + 100000) \<and>
         sampleRate (audios (snd (getpieces st src segs)) (free_audio st)) = sr"
  using assms by (rule getpieces_result)

lemmas piece_eval =
  piece_def piece_bounds_def bound_of_def counted_def converts_def to_sample_def py_int_def
  slice_rows_def slice_indices_def clip_index_def round64_eval

lemma example_pieces:
  "piece (arrays buf_store 0) (Some 4) quantum_a = [[1]]"
  "piece (arrays buf_store 0) (Some 4) quantum_b = [[2], [0]]"
  "piece (arrays buf_store 0) (Some 4) quantum_c = [[0]]"
  "piece (arrays buf_store 0) (Some 4) quantum_i = [[2], [0]]"
  "counted (Some 4) quantum_a = 1" "counted (Some 4) quantum_b = 2"
  "counted (Some 4) quantum_c = 4" "counted (Some 4) quantum_i = 8"
  "converts (Some 4) quantum_a" "converts (Some 4) quantum_b"
  "converts (Some 4) quantum_c" "converts (Some 4) quantum_i"
  by (simp_all add: buf_store_def quantum_a_def quantum_b_def quantum_c_def quantum_i_def piece_eval)

theorem getpieces_length_witness:
  "data (audios buf_store 0) = Some 0 \<and> sampleRate (audios buf_store 0) = Some 4 \<and>
   length (tail (arrays buf_store 0)) \<le> 1 \<and> 0 < free_array buf_store \<and> 0 < free_audio buf_store \<and>
   converts (Some 4) quantum_b \<and> converts (Some 4) quantum_i \<and> converts (Some 4) quantum_a \<and>
   fst (getpieces buf_store 0 [quantum_b, quantum_i, quantum_a]) = Inr 4 \<and>
   endindex (audios (snd (getpieces buf_store 0 [quantum_b, quantum_i, quantum_a])) 4) = 5 \<and>
   take 5 (rows (arrays (snd (getpieces buf_store 0 [quantum_b, quantum_i, quantum_a])) 4))
     = [[2], [0], [2], [0], [1]] \<and>
   length (rows (arrays (snd (getpieces buf_store 0 [quantum_b, quantum_i, quantum_a])) 4)) = 100011"
proof -
  have h1: "data (audios buf_store 0) = Some 0" by (simp add: buf_store_def)
  have h2: "sampleRate (audios buf_store 0) = Some 4" by (simp add: buf_store_def)
  have h3: "length (tail (arrays buf_store 0)) \<le> 1" by (simp add: buf_store_def)
  have h4: "0 < free_array buf_store" by (simp add: buf_store_def)
  have h5: "0 < free_audio buf_store" by (simp add: buf_store_def)
  have h6: "\<forall>q \<in> set [quantum_b, quantum_i, quantum_a]. converts (Some 4) q"
    by (simp add: example_pieces)
  have h7: "int (sum_list (map (\<lambda>q. length (piece (arrays buf_store 0) (Some 4) q))
                             [quantum_b, quantum_i, quantum_a]))
              \<le> sum_list (map (counted (Some 4)) [quantum_b, quantum_i, quantum_a]) + 100000"
    by (simp add: example_pieces)
  have v: "free_audio buf_store = 4" "free_array buf_store = 4" by (simp_all add: buf_store_def)
  have five: "(5::nat) = Suc (Suc (Suc (Suc (Suc 0))))" by simp
  show ?thesis
    using h1 h2 h3 h4 h5 h6 getpieces_length [OF h1 h2 h3 h4 h5 h6 h7]
    by (simp add: example_pieces v five)
qed

text \<open>
  One object of 7/16 seconds at 4 samples per second, 1.75 samples: the slice
  \<open>[0:1]\<close> has one row, and rounding gives two; the numbers are floats, and the float
  product is exact. And one object of a whole second that starts a quarter of a second
  before the end of the source: four samples by its duration, one row in the slice.
\<close>

theorem getpieces_truncates:
  "fst (getpieces buf_store 0 [quantum_a]) = Inr 4 \<and>
   endindex (audios (snd (getpieces buf_store 0 [quantum_a])) 4) = 1 \<and>
   spec_assembled_length 4 [quantum_a] = 2 \<and>
   fst (getpieces buf_store 0 [quantum_c]) = Inr 4 \<and>
   endindex (audios (snd (getpieces buf_store 0 [quantum_c])) 4) = 1 \<and>
   spec_assembled_length 4 [quantum_c] = 4"
proof -
  have h1: "data (audios buf_store 0) = Some 0" by (simp add: buf_store_def)
  have h2: "sampleRate (audios buf_store 0) = Some 4" by (simp add: buf_store_def)
  have h3: "length (tail (arrays buf_store 0)) \<le> 1" by (simp add: buf_store_def)
  have h4: "0 < free_array buf_store" by (simp add: buf_store_def)
  have h5: "0 < free_audio buf_store" by (simp add: buf_store_def)
  have a5: "\<forall>q \<in> set [quantum_a]. converts (Some 4) q" by (simp add: example_pieces)
  have c5: "\<forall>q \<in> set [quantum_c]. converts (Some 4) q" by (simp add: example_pieces)
  have a6: "int (sum_list (map (\<lambda>q. length (piece (arrays buf_store 0) (Some 4) q)) [quantum_a]))
              \<le> sum_list (map (counted (Some 4)) [quantum_a]) + 100000"
    by (simp add: example_pieces)
  have c6: "int (sum_list (map (\<lambda>q. length (piece (arrays buf_store 0) (Some 4) q)) [quantum_c]))
              \<le> sum_list (map (counted (Some 4)) [quantum_c]) + 100000"
    by (simp add: example_pieces)
  have v: "free_audio buf_store = 4" "free_array buf_store = 4" by (simp_all add: buf_store_def)
  have s: "spec_assembled_length 4 [quantum_a] = 2" "spec_assembled_length 4 [quantum_c] = 4"
    by (simp_all add: spec_assembled_length_def py_round_def rate_product_def quantum_a_def
          quantum_c_def round64_eval)
  show ?thesis
    using getpieces_result [OF h1 h2 h3 h4 h5 a5 a6] getpieces_result [OF h1 h2 h3 h4 h5 c5 c6] s
    by (simp add: example_pieces v)
qed

text \<open>
  At 10 samples per second, 0.3 seconds from the start are the rows \<open>[0:3]\<close>, and the
  first loop counts 3: the float product rounds to 3.
\<close>

lemma tenths_piece:
  "piece_bounds (Some 10) \<lparr>tstart = FloatN 0, tduration = FloatN tenths\<rparr> = Inr (Some 0, Some 3)"
  "counted (Some 10) \<lparr>tstart = FloatN 0, tduration = FloatN tenths\<rparr> = 3"
  "counted (Some 44100) \<lparr>tstart = FloatN 0, tduration = FloatN tenths\<rparr> = 13230"
  by (simp_all add: piece_eval tenths_def)

text \<open>
  The number of rows of a slice with bounds \<open>0 \<le> i \<le> j\<close>: both bounds are clipped to
  the length of the source.
\<close>

lemma slice_rows_length_nonneg:
  assumes "0 \<le> i" "i \<le> j"
  shows "int (length (slice_rows xs (Some i) (Some j))) = min j (int (length xs)) - min i (int (length xs))"
  using assms by (simp add: slice_rows_def slice_indices_def clip_index_def)

end
